theory Spec2Isabelle
  imports Complex_Main "HOL-Library.Signed_Division"
begin

section \<open>The gas-sensor sketch of the SD-AQI paper\<close>

text \<open>
  The Arduino sketch embedded in \<^verbatim>\<open>research/sd_aqi_paper.md\<close> samples six MQ gas sensors,
  turns each trimmed ADC reading into a sensor resistance, smooths it per pin, maps the
  ratio Rs/Ro through a three-coefficient curve to a gas estimate and combines the
  estimates into the SD-AQI index. This theory embeds those functions.
\<close>

subsection \<open>Floating-point values\<close>

text \<open>
  A C \<^verbatim>\<open>float\<close> is a finite number, a zero of either sign, an infinity or NaN. Finite values
  are modelled by reals: rounding and the overflow of a finite result to an infinity are
  left out. \<open>Fin 0\<close> is the zero +0 and \<open>NZero\<close> the zero -0; the special values and the sign
  of a zero follow IEEE 754, since the sketch's control flow and the results of its
  divisions depend on them (\<^verbatim>\<open>isnan\<close>, \<^verbatim>\<open>isinf\<close>, comparisons with NaN, \<^verbatim>\<open>1.0 / m\<close> for a zero \<open>m\<close>).
\<close>

datatype cfloat = Fin real | NZero | PInf | NInf | NaN

fun isnan :: "cfloat \<Rightarrow> bool" where
  "isnan NaN = True"
| "isnan _ = False"

fun isinf :: "cfloat \<Rightarrow> bool" where
  "isinf PInf = True"
| "isinf NInf = True"
| "isinf _ = False"

text \<open>The sign bit, the zeros and the numerical value of a finite float.\<close>

fun fnegative :: "cfloat \<Rightarrow> bool" where
  "fnegative (Fin a) = (a < 0)"
| "fnegative NZero = True"
| "fnegative PInf = False"
| "fnegative NInf = True"
| "fnegative NaN = False"

fun is_zero :: "cfloat \<Rightarrow> bool" where
  "is_zero (Fin a) = (a = 0)"
| "is_zero NZero = True"
| "is_zero _ = False"

fun finite_value :: "cfloat \<Rightarrow> real" where
  "finite_value (Fin a) = a"
| "finite_value _ = 0"

definition signed_zero :: "bool \<Rightarrow> cfloat" where
  "signed_zero neg = (if neg then NZero else Fin 0)"

definition signed_inf :: "bool \<Rightarrow> cfloat" where
  "signed_inf neg = (if neg then NInf else PInf)"

fun fneg :: "cfloat \<Rightarrow> cfloat" where
  "fneg (Fin a) = (if a = 0 then NZero else Fin (- a))"
| "fneg NZero = Fin 0"
| "fneg PInf = NInf"
| "fneg NInf = PInf"
| "fneg NaN = NaN"

text \<open>A sum that is zero is +0, unless both terms are -0 (rounding to nearest).\<close>

fun fadd :: "cfloat \<Rightarrow> cfloat \<Rightarrow> cfloat" where
  "fadd NaN _ = NaN"
| "fadd _ NaN = NaN"
| "fadd NZero b = b"
| "fadd a NZero = a"
| "fadd (Fin a) (Fin b) = Fin (a + b)"
| "fadd (Fin a) PInf = PInf"
| "fadd (Fin a) NInf = NInf"
| "fadd PInf (Fin b) = PInf"
| "fadd NInf (Fin b) = NInf"
| "fadd PInf PInf = PInf"
| "fadd NInf NInf = NInf"
| "fadd PInf NInf = NaN"
| "fadd NInf PInf = NaN"

definition fsub :: "cfloat \<Rightarrow> cfloat \<Rightarrow> cfloat" where
  "fsub a b = fadd a (fneg b)"

text \<open>
  The sign of a product or quotient is the exclusive or of the signs of its operands, also
  when the result is a zero or an infinity.
\<close>

definition fmul :: "cfloat \<Rightarrow> cfloat \<Rightarrow> cfloat" where
  "fmul a b =
     (if isnan a \<or> isnan b then NaN
      else if isinf a \<or> isinf b then
        (if is_zero a \<or> is_zero b then NaN else signed_inf (fnegative a \<noteq> fnegative b))
      else if is_zero a \<or> is_zero b then signed_zero (fnegative a \<noteq> fnegative b)
      else Fin (finite_value a * finite_value b))"

definition fdiv :: "cfloat \<Rightarrow> cfloat \<Rightarrow> cfloat" where
  "fdiv a b =
     (if isnan a \<or> isnan b then NaN
      else if isinf a then (if isinf b then NaN else signed_inf (fnegative a \<noteq> fnegative b))
      else if isinf b then signed_zero (fnegative a \<noteq> fnegative b)
      else if is_zero b then
        (if is_zero a then NaN else signed_inf (fnegative a \<noteq> fnegative b))
      else if is_zero a then signed_zero (fnegative a \<noteq> fnegative b)
      else Fin (finite_value a / finite_value b))"

fun fabs :: "cfloat \<Rightarrow> cfloat" where
  "fabs (Fin a) = Fin \<bar>a\<bar>"
| "fabs NZero = Fin 0"
| "fabs PInf = PInf"
| "fabs NInf = PInf"
| "fabs NaN = NaN"

text \<open>Comparisons: every comparison with NaN is false, and the two zeros are equal.\<close>

fun flt :: "cfloat \<Rightarrow> cfloat \<Rightarrow> bool" where
  "flt NaN _ = False"
| "flt _ NaN = False"
| "flt NInf NInf = False"
| "flt NInf _ = True"
| "flt _ NInf = False"
| "flt PInf _ = False"
| "flt _ PInf = True"
| "flt a b = (finite_value a < finite_value b)"

fun fle :: "cfloat \<Rightarrow> cfloat \<Rightarrow> bool" where
  "fle NaN _ = False"
| "fle _ NaN = False"
| "fle NInf _ = True"
| "fle _ PInf = True"
| "fle PInf _ = False"
| "fle _ NInf = False"
| "fle a b = (finite_value a \<le> finite_value b)"

definition fgt :: "cfloat \<Rightarrow> cfloat \<Rightarrow> bool" where
  "fgt a b = flt b a"

text \<open>\<^verbatim>\<open>log\<close>, \<^verbatim>\<open>log10\<close> and \<^verbatim>\<open>pow(10, y)\<close> of the C library.\<close>

fun flog :: "cfloat \<Rightarrow> cfloat" where
  "flog (Fin a) = (if a < 0 then NaN else if a = 0 then NInf else Fin (ln a))"
| "flog NZero = NInf"
| "flog PInf = PInf"
| "flog NInf = NaN"
| "flog NaN = NaN"

fun flog10 :: "cfloat \<Rightarrow> cfloat" where
  "flog10 (Fin a) = (if a < 0 then NaN else if a = 0 then NInf else Fin (log 10 a))"
| "flog10 NZero = NInf"
| "flog10 PInf = PInf"
| "flog10 NInf = NaN"
| "flog10 NaN = NaN"

fun fpow10 :: "cfloat \<Rightarrow> cfloat" where
  "fpow10 (Fin y) = Fin (10 powr y)"
| "fpow10 NZero = Fin 1"
| "fpow10 PInf = PInf"
| "fpow10 NInf = Fin 0"
| "fpow10 NaN = NaN"

definition float_of_int :: "int \<Rightarrow> cfloat" where
  "float_of_int i = Fin (of_int i)"

subsection \<open>Configuration constants and the sketch's globals\<close>

definition MQ2_PIN :: int where "MQ2_PIN = 0"
definition MQ7_PIN :: int where "MQ7_PIN = 1"
definition MQ4_PIN :: int where "MQ4_PIN = 4"
definition MQ9_PIN :: int where "MQ9_PIN = 2"
definition MQ135_PIN :: int where "MQ135_PIN = 3"
definition MQ8_PIN :: int where "MQ8_PIN = 5"
definition RL_VALUE :: int where "RL_VALUE = 10"

definition READ_SAMPLE_TIMES :: nat where "READ_SAMPLE_TIMES = 5"
definition ANALOG_READ_RETRIES :: nat where "ANALOG_READ_RETRIES = 5"
definition EMA_ALPHA :: cfloat where "EMA_ALPHA = Fin 0.25"

text \<open>A curve is the array \<^verbatim>\<open>float[3]\<close>: \<^verbatim>\<open>pcurve[0]\<close>, \<^verbatim>\<open>pcurve[1]\<close>, \<^verbatim>\<open>pcurve[2]\<close>.\<close>

type_synonym curve = "cfloat \<times> cfloat \<times> cfloat"

definition MQ2Curve :: curve where "MQ2Curve = (Fin 1.291, Fin 0.21, Fin (- 0.47))"
definition COCurve :: curve where "COCurve = (Fin 1.502, Fin 0.72, Fin (- 0.34))"
definition SmokeCurve :: curve where "SmokeCurve = (Fin 1.657, Fin 0.53, Fin (- 0.49))"
definition MQ7Curve :: curve where "MQ7Curve = (Fin 1.224, Fin 0.35, Fin (- 0.38))"
definition MQ4Curve :: curve where "MQ4Curve = (Fin 0.858, Fin 0.26, Fin (- 0.26))"
definition MQ9Curve :: curve where "MQ9Curve = (Fin 1.5, Fin 0.55, Fin (- 0.45))"
definition CO2Curve :: curve where "CO2Curve = (Fin 2.3, Fin 0.72, Fin (- 0.34))"
definition NH3Curve :: curve where "NH3Curve = (Fin 1.9, Fin 0.85, Fin (- 0.44))"
definition NOxCurve :: curve where "NOxCurve = (Fin 1.8, Fin 0.80, Fin (- 0.41))"
definition AlcoholCurve :: curve where "AlcoholCurve = (Fin 1.7, Fin 0.78, Fin (- 0.35))"
definition BenzeneCurve :: curve where "BenzeneCurve = (Fin 1.8, Fin 0.82, Fin (- 0.40))"
definition MQ8Curve :: curve where "MQ8Curve = (Fin 1.0, Fin 0.30, Fin (- 0.45))"
definition AirCurve :: curve where "AirCurve = (Fin 1.5, Fin 0.28, Fin (- 0.44))"

definition MAX_CO2_THRESHOLD :: cfloat where "MAX_CO2_THRESHOLD = Fin 500"
definition MAX_CO_THRESHOLD :: cfloat where "MAX_CO_THRESHOLD = Fin 15"
definition MAX_OIL_THRESHOLD :: cfloat where "MAX_OIL_THRESHOLD = Fin 0.5"
definition MAX_NOX_THRESHOLD :: cfloat where "MAX_NOX_THRESHOLD = Fin 2"
definition MAX_HYDROCARBONS_THRESHOLD :: cfloat where "MAX_HYDROCARBONS_THRESHOLD = Fin 1"
definition MAX_MOISTURE_THRESHOLD :: cfloat where "MAX_MOISTURE_THRESHOLD = Fin 60"

text \<open>
  The JSON object that \<^verbatim>\<open>loop\<close> builds, by key. The decimal formatting of the numbers
  belongs to the Arduino \<^verbatim>\<open>String\<close> class and is not modelled.
\<close>

record snapshot =
  LPG :: cfloat
  CO :: cfloat
  Smoke :: cfloat
  CO_MQ7 :: cfloat
  CH4 :: cfloat
  CO_MQ9 :: cfloat
  CO2 :: cfloat
  NH3 :: cfloat
  NOx :: cfloat
  Alcohol :: cfloat
  Benzene :: cfloat
  H2 :: cfloat
  Air :: cfloat
  Temperature :: cfloat
  Humidity :: cfloat
  SD_AQI :: cfloat
  SD_AQI_level :: string

text \<open>One item per \<^verbatim>\<open>print\<close>/\<^verbatim>\<open>println\<close> call: a text, a number, or the JSON line.\<close>

datatype msg = Str string | Num cfloat | Json snapshot

text \<open>
  The hardware and the C library, which the sketch only calls: the ADC (\<open>analogRead b pin n\<close>
  is the value of the \<open>n\<close>-th conversion since start when it is made on \<open>pin\<close>), the DHT
  sensor (indexed the same way) and the parsers \<^verbatim>\<open>atoi\<close>, \<^verbatim>\<open>atof\<close>.
\<close>

record board =
  analogRead :: "int \<Rightarrow> nat \<Rightarrow> int"
  readHumidity :: "nat \<Rightarrow> cfloat"
  readTemperature :: "nat \<Rightarrow> cfloat"
  atoi :: "string \<Rightarrow> int"
  atof :: "string \<Rightarrow> cfloat"

text \<open>
  The mutable globals of the sketch, with the conversion counter \<open>tick\<close>, the bytes still
  to be read from the serial port and what has been written to the two ports. The curves
  are \<^verbatim>\<open>const ... PROGMEM\<close> arrays and therefore not part of the state.
\<close>

record sketch =
  Ro_MQ2 :: cfloat
  Ro_MQ7 :: cfloat
  Ro_MQ4 :: cfloat
  Ro_MQ9 :: cfloat
  Ro_MQ135 :: cfloat
  Ro_MQ8 :: cfloat
  SmoothedRS_MQ2 :: cfloat
  SmoothedRS_MQ7 :: cfloat
  SmoothedRS_MQ4 :: cfloat
  SmoothedRS_MQ9 :: cfloat
  SmoothedRS_MQ135 :: cfloat
  SmoothedRS_MQ8 :: cfloat
  tick :: nat
  serial_in :: string
  serial_out :: "msg list"
  xbee_out :: "msg list"

text \<open>The globals as their initialisers leave them.\<close>

definition power_on :: sketch where
  "power_on = \<lparr> Ro_MQ2 = Fin 10, Ro_MQ7 = Fin 10, Ro_MQ4 = Fin 10, Ro_MQ9 = Fin 10,
      Ro_MQ135 = Fin 10, Ro_MQ8 = Fin 10,
      SmoothedRS_MQ2 = Fin 0, SmoothedRS_MQ7 = Fin 0, SmoothedRS_MQ4 = Fin 0,
      SmoothedRS_MQ9 = Fin 0, SmoothedRS_MQ135 = Fin 0, SmoothedRS_MQ8 = Fin 0,
      tick = 0, serial_in = [], serial_out = [], xbee_out = [] \<rparr>"

definition Serial_println :: "msg \<Rightarrow> sketch \<Rightarrow> sketch" where
  "Serial_println m st = st\<lparr>serial_out := serial_out st @ [m]\<rparr>"

definition XBee_println :: "msg \<Rightarrow> sketch \<Rightarrow> sketch" where
  "XBee_println m st = st\<lparr>xbee_out := xbee_out st @ [m]\<rparr>"

subsection \<open>Resistance model\<close>

definition MQResistanceCalculation :: "int \<Rightarrow> sketch \<Rightarrow> cfloat \<times> sketch" where
  "MQResistanceCalculation raw_adc st =
     (if raw_adc = 0 then (NaN, Serial_println (Str ''Error: Invalid ADC value (0)'') st)
      else (fdiv (fmul (float_of_int RL_VALUE) (float_of_int (1023 - raw_adc)))
                 (float_of_int raw_adc), st))"

subsection \<open>Sampler\<close>

text \<open>
  The retry loop of \<^verbatim>\<open>analogReadWithRetries\<close>: \<open>k\<close> attempts are left and \<open>val\<close> is the
  last value read. Each attempt is one conversion.
\<close>

fun retry_loop :: "board \<Rightarrow> int \<Rightarrow> nat \<Rightarrow> int \<Rightarrow> sketch \<Rightarrow> int \<times> sketch" where
  "retry_loop b pin 0 val st = (val, st)"
| "retry_loop b pin (Suc k) val st =
     (let v = analogRead b pin (tick st); st' = st\<lparr>tick := Suc (tick st)\<rparr>
      in if v > 0 \<and> v < 1023 then (v, st') else retry_loop b pin k v st')"

text \<open>
  \<^verbatim>\<open>val\<close> is uninitialised before the first attempt; with \<open>ANALOG_READ_RETRIES = 5\<close> the
  body runs at least once, so the initial 0 below is never returned.
\<close>

definition analogReadWithRetries :: "board \<Rightarrow> int \<Rightarrow> sketch \<Rightarrow> int \<times> sketch" where
  "analogReadWithRetries b pin st = retry_loop b pin ANALOG_READ_RETRIES 0 st"

text \<open>The first loop of \<^verbatim>\<open>readAnalogFilteredRaw\<close>: fill \<^verbatim>\<open>samples[]\<close>.\<close>

fun sample_loop :: "board \<Rightarrow> int \<Rightarrow> nat \<Rightarrow> sketch \<Rightarrow> int list \<times> sketch" where
  "sample_loop b pin 0 st = ([], st)"
| "sample_loop b pin (Suc k) st =
     (let (v, st1) = analogReadWithRetries b pin st;
          (vs, st2) = sample_loop b pin k st1
      in (v # vs, st2))"

text \<open>The second loop: running minimum, maximum and sum (\<open>acc\<close> is the source's \<^verbatim>\<open>sum\<close>).\<close>

fun trim_loop :: "int list \<Rightarrow> int \<times> int \<times> int \<Rightarrow> int \<times> int \<times> int" where
  "trim_loop [] acc = acc"
| "trim_loop (s # ss) (minv, maxv, acc) =
     trim_loop ss (if s < minv then s else minv, if s > maxv then s else maxv, acc + s)"



text \<open>\<^verbatim>\<open>readAnalogFilteredRaw\<close> as compiled, with \<^verbatim>\<open>READ_SAMPLE_TIMES\<close> = 5.\<close>

definition readAnalogFilteredRaw :: "board \<Rightarrow> int \<Rightarrow> sketch \<Rightarrow> int \<times> sketch" where
  "readAnalogFilteredRaw b pin st =
     (let (samples, st') = sample_loop b pin READ_SAMPLE_TIMES st;
          (minv, maxv, acc) = trim_loop samples (1024, - 1, 0)
      in (if READ_SAMPLE_TIMES > 2 then (acc - minv - maxv) sdiv (int READ_SAMPLE_TIMES - 2)
          else acc sdiv int READ_SAMPLE_TIMES, st'))"

subsection \<open>Smoother\<close>

text \<open>
  The statement that \<^verbatim>\<open>MQRead\<close> repeats for each pin:
  \<^verbatim>\<open>if (S <= 0) S = rs; else S = (EMA_ALPHA * rs) + ((1 - EMA_ALPHA) * S);\<close>
\<close>

definition ema_update :: "cfloat \<Rightarrow> cfloat \<Rightarrow> cfloat" where
  "ema_update S rs =
     (if fle S (Fin 0) then rs
      else fadd (fmul EMA_ALPHA rs) (fmul (fsub (Fin 1) EMA_ALPHA) S))"

definition MQRead :: "board \<Rightarrow> int \<Rightarrow> cfloat \<Rightarrow> sketch \<Rightarrow> cfloat \<times> sketch" where
  "MQRead b mq_pin Ro st =
     (let (raw, st1) = readAnalogFilteredRaw b mq_pin st;
          (rs, st2) = MQResistanceCalculation raw st1
      in if isnan rs \<or> isinf rs then (NaN, st2)
         else if mq_pin = MQ2_PIN then
           (let s = ema_update (SmoothedRS_MQ2 st2) rs in (s, st2\<lparr>SmoothedRS_MQ2 := s\<rparr>))
         else if mq_pin = MQ7_PIN then
           (let s = ema_update (SmoothedRS_MQ7 st2) rs in (s, st2\<lparr>SmoothedRS_MQ7 := s\<rparr>))
         else if mq_pin = MQ4_PIN then
           (let s = ema_update (SmoothedRS_MQ4 st2) rs in (s, st2\<lparr>SmoothedRS_MQ4 := s\<rparr>))
         else if mq_pin = MQ9_PIN then
           (let s = ema_update (SmoothedRS_MQ9 st2) rs in (s, st2\<lparr>SmoothedRS_MQ9 := s\<rparr>))
         else if mq_pin = MQ135_PIN then
           (let s = ema_update (SmoothedRS_MQ135 st2) rs in (s, st2\<lparr>SmoothedRS_MQ135 := s\<rparr>))
         else if mq_pin = MQ8_PIN then
           (let s = ema_update (SmoothedRS_MQ8 st2) rs in (s, st2\<lparr>SmoothedRS_MQ8 := s\<rparr>))
         else (rs, st2))"

subsection \<open>Concentration estimator, index and alerts\<close>

definition MQGetGasPercentage :: "cfloat \<Rightarrow> curve \<Rightarrow> cfloat" where
  "MQGetGasPercentage rs_ro_ratio pcurve =
     (case pcurve of (pc0, pc1, pc2) \<Rightarrow>
        fpow10 (fadd (fdiv (fsub (flog rs_ro_ratio) pc1) pc2) pc0))"

definition calculateSDAQI ::
  "cfloat \<Rightarrow> cfloat \<Rightarrow> cfloat \<Rightarrow> cfloat \<Rightarrow> cfloat \<Rightarrow> cfloat \<Rightarrow> cfloat \<Rightarrow> cfloat \<Rightarrow> cfloat" where
  "calculateSDAQI co co_mq7 co_mq9 ch4 h2 co2 nox air =
     fadd (fadd (fadd (fadd (fadd (fadd (fadd
       (fmul co (Fin 0.05)) (fmul co_mq7 (Fin 0.1))) (fmul co_mq9 (Fin 0.1)))
       (fmul ch4 (Fin 0.1))) (fmul h2 (Fin 0.05))) (fmul co2 (Fin 0.5)))
       (fmul nox (Fin 0.1))) (fmul air (Fin 0.05))"

text \<open>The severity ladder that \<^verbatim>\<open>loop\<close> applies to the index.\<close>

definition severity :: "cfloat \<Rightarrow> string" where
  "severity idx =
     (if fle idx (Fin 50) then ''Excellent''
      else if fle idx (Fin 100) then ''Good''
      else if fle idx (Fin 150) then ''Moderate''
      else if fle idx (Fin 200) then ''Unhealthy for Sensitive Groups''
      else if fle idx (Fin 300) then ''Unhealthy''
      else ''Hazardous'')"

text \<open>An alert goes to both ports (\<^verbatim>\<open>ENABLE_XBEE\<close> is 1).\<close>

definition alert :: "string \<Rightarrow> sketch \<Rightarrow> sketch" where
  "alert line st = XBee_println (Str line) (Serial_println (Str line) st)"

definition evaluateAirQuality ::
  "cfloat \<Rightarrow> cfloat \<Rightarrow> cfloat \<Rightarrow> cfloat \<Rightarrow> cfloat \<Rightarrow> cfloat \<Rightarrow> sketch \<Rightarrow> sketch" where
  "evaluateAirQuality co2 co lpg nox benzene humidity st =
     (let st1 = (if fgt co2 MAX_CO2_THRESHOLD
                 then alert ''ALERT: Carbon Dioxide (CO2) level exceeds safe threshold!'' st
                 else st);
          st2 = (if fgt co MAX_CO_THRESHOLD
                 then alert ''ALERT: Carbon Monoxide (CO) level exceeds safe threshold!'' st1
                 else st1);
          st3 = (if fgt lpg MAX_HYDROCARBONS_THRESHOLD
                 then alert ''ALERT: LPG level exceeds safe threshold!'' st2
                 else st2);
          st4 = (if fgt nox MAX_NOX_THRESHOLD
                 then alert ''ALERT: Nitrogen Oxides (NOx) level exceeds safe threshold!'' st3
                 else st3);
          st5 = (if fgt benzene MAX_HYDROCARBONS_THRESHOLD
                 then alert ''ALERT: Benzene level exceeds safe threshold!'' st4
                 else st4)
      in if fgt humidity MAX_MOISTURE_THRESHOLD
         then alert ''ALERT: Humidity exceeds safe threshold!'' st5
         else st5)"

subsection \<open>Curve fitting\<close>

text \<open>
  \<^verbatim>\<open>computeTwoPointCurve\<close> writes \<^verbatim>\<open>outCurve\<close> on every path (three NaNs when the points
  cannot be fitted); the result is the array with the state after the error print.
\<close>

definition computeTwoPointCurve ::
  "cfloat \<Rightarrow> cfloat \<Rightarrow> cfloat \<Rightarrow> cfloat \<Rightarrow> sketch \<Rightarrow> curve \<times> sketch" where
  "computeTwoPointCurve ppm1 rsro1 ppm2 rsro2 st =
     (let x1 = flog rsro1; x2 = flog rsro2; y1 = flog10 ppm1; y2 = flog10 ppm2
      in if flt (fabs (fsub x2 x1)) (Fin (1 / 10 ^ 6)) then
           ((NaN, NaN, NaN),
            Serial_println (Str ''Error: Rs/Ro points identical (can't fit curve)'') st)
         else
           (let m = fdiv (fsub y2 y1) (fsub x2 x1);
                p2 = fdiv (Fin 1) m;
                p1 = Fin 0;
                p0 = fadd (fsub y1 (fdiv x1 p2)) (fdiv p1 p2)
            in ((p0, p1, p2), st)))"

text \<open>
  The accumulation loop of \<^verbatim>\<open>computeMultiPointCurve\<close> over the pairs
  \<open>(ppm[i], rsro[i])\<close>; \<open>None\<close> is the early \<^verbatim>\<open>return false\<close>.
\<close>

fun sums_loop ::
  "(cfloat \<times> cfloat) list \<Rightarrow> cfloat \<times> cfloat \<times> cfloat \<times> cfloat
     \<Rightarrow> (cfloat \<times> cfloat \<times> cfloat \<times> cfloat) option" where
  "sums_loop [] acc = Some acc"
| "sums_loop ((ppm_i, rsro_i) # rest) (sumx, sumy, sumxy, sumx2) =
     (if fle rsro_i (Fin 0) \<or> fle ppm_i (Fin 0) then None
      else (let x = flog rsro_i; y = flog10 ppm_i
            in sums_loop rest (fadd sumx x, fadd sumy y, fadd sumxy (fmul x y),
                 fadd sumx2 (fmul x x))))"

text \<open>
  \<^verbatim>\<open>computeMultiPointCurve\<close>: \<open>None\<close> is \<^verbatim>\<open>false\<close> (\<^verbatim>\<open>outCurve\<close> untouched), \<open>Some\<close> the
  curve written with \<^verbatim>\<open>true\<close>. The arrays hold at least \<open>n\<close> entries at the only call.
\<close>

definition computeMultiPointCurve :: "cfloat list \<Rightarrow> cfloat list \<Rightarrow> int \<Rightarrow> curve option" where
  "computeMultiPointCurve ppm rsro n =
     (if n < 2 then None
      else case sums_loop (take (nat n) (zip ppm rsro)) (Fin 0, Fin 0, Fin 0, Fin 0) of
        None \<Rightarrow> None
      | Some (sumx, sumy, sumxy, sumx2) \<Rightarrow>
          (let denom = fsub (fmul (float_of_int n) sumx2) (fmul sumx sumx)
           in if flt (fabs denom) (Fin (1 / 10 ^ 12)) then None
              else (let a = fdiv (fsub (fmul (float_of_int n) sumxy) (fmul sumx sumy)) denom;
                        b = fdiv (fsub sumy (fmul a sumx)) (float_of_int n)
                    in if flt (fabs a) (Fin (1 / 10 ^ 12)) then None
                       else (let p2 = fdiv (Fin 1) a;
                                 meanx = fdiv sumx (float_of_int n);
                                 p1 = meanx;
                                 p0 = fadd b (fdiv p1 p2)
                             in Some (p0, p1, p2)))))"

subsection \<open>Interactive calibration\<close>

text \<open>The loop of \<^verbatim>\<open>measureRsOverRo\<close>, carrying \<^verbatim>\<open>validCount\<close> and \<^verbatim>\<open>sumRs\<close>.\<close>

fun measure_loop ::
  "board \<Rightarrow> int \<Rightarrow> nat \<Rightarrow> int \<times> cfloat \<Rightarrow> sketch \<Rightarrow> (int \<times> cfloat) \<times> sketch" where
  "measure_loop b mq_pin 0 acc st = (acc, st)"
| "measure_loop b mq_pin (Suc k) (validCount, sumRs) st =
     (let (raw, st1) = readAnalogFilteredRaw b mq_pin st;
          (rs, st2) = MQResistanceCalculation raw st1
      in if isnan rs \<or> isinf rs then measure_loop b mq_pin k (validCount, sumRs) st2
         else measure_loop b mq_pin k (validCount + 1, fadd sumRs rs) st2)"

definition measureRsOverRo :: "board \<Rightarrow> int \<Rightarrow> cfloat \<Rightarrow> nat \<Rightarrow> sketch \<Rightarrow> cfloat \<times> sketch" where
  "measureRsOverRo b mq_pin Ro samples st =
     (let ((validCount, sumRs), st') = measure_loop b mq_pin samples (0, Fin 0) st
      in if validCount = 0 then (NaN, st')
         else (fdiv (fdiv sumRs (float_of_int validCount)) Ro, st'))"

text \<open>
  The serial port. \<open>serial_in\<close> holds the bytes of the session in order; their arrival
  times are not modelled, so \<^verbatim>\<open>Serial.available()\<close> is "a byte is left" and a wait
  \<^verbatim>\<open>while (!Serial.available()) delay(10);\<close> with no byte left never returns (\<open>None\<close>
  in the functions below). \<^verbatim>\<open>readStringUntil\<close> stops at the terminator, which it
  consumes, or at the end of the input (its timeout).
\<close>

definition Serial_readStringUntil :: "char \<Rightarrow> sketch \<Rightarrow> string \<times> sketch" where
  "Serial_readStringUntil terminator st =
     (takeWhile (\<lambda>c. c \<noteq> terminator) (serial_in st),
      st\<lparr>serial_in := drop 1 (dropWhile (\<lambda>c. c \<noteq> terminator) (serial_in st))\<rparr>)"

definition isspace :: "char \<Rightarrow> bool" where
  "isspace c = (c \<in> set [CHR '' '', CHR 0x09, CHR 0x0A, CHR 0x0B, CHR 0x0C, CHR 0x0D])"

definition trim :: "string \<Rightarrow> string" where
  "trim line = rev (dropWhile isspace (rev (dropWhile isspace line)))"

text \<open>
  The tokens that successive \<^verbatim>\<open>strtok(..., " \t")\<close> calls return: the maximal runs of
  non-delimiters; \<open>cur\<close> is the run being read, reversed.
\<close>

fun strtok_all :: "string \<Rightarrow> string \<Rightarrow> string list" where
  "strtok_all [] cur = (if cur = [] then [] else [rev cur])"
| "strtok_all (c # cs) cur =
     (if c = CHR '' '' \<or> c = CHR 0x09
      then (if cur = [] then strtok_all cs [] else rev cur # strtok_all cs [])
      else strtok_all cs (c # cur))"

text \<open>The loop that fills \<^verbatim>\<open>ppmList\<close>; \<open>Inl\<close> carries the message of the early return.\<close>

fun parse_ppm :: "board \<Rightarrow> nat \<Rightarrow> string list \<Rightarrow> string + cfloat list" where
  "parse_ppm b 0 toks = Inr []"
| "parse_ppm b (Suc k) [] = Inl ''Parse error: not enough ppm values''"
| "parse_ppm b (Suc k) (tok # toks) =
     (let p = atof b tok
      in if fle p (Fin 0) then Inl ''Invalid ppm value''
         else (case parse_ppm b k toks of
                 Inl e \<Rightarrow> Inl e
               | Inr ps \<Rightarrow> Inr (p # ps)))"

text \<open>
  The loop that measures Rs/Ro for each reference concentration. \<open>None\<close>: the wait for
  Enter never returns; \<open>Some (Inl st)\<close>: aborted on an invalid measurement;
  \<open>Some (Inr (rsroList, st))\<close>: all points measured.
\<close>

fun collect_points ::
  "board \<Rightarrow> int \<Rightarrow> cfloat \<Rightarrow> cfloat list \<Rightarrow> sketch \<Rightarrow> (sketch + cfloat list \<times> sketch) option" where
  "collect_points b pin Ro [] st = Some (Inr ([], st))"
| "collect_points b pin Ro (ppm_i # rest) st =
     (let st1 = Serial_println (Num ppm_i) (Serial_println (Str ''Please expose sensor to ppm='') st);
          st2 = Serial_println (Str ''When ready press Enter in Serial Monitor to measure...'') st1
      in if serial_in st2 = [] then None
         else (let (entered, st3) = Serial_readStringUntil (CHR 0x0A) st2;
                   (measured, st4) = measureRsOverRo b pin Ro 10 st3;
                   st5 = Serial_println (Num measured) (Serial_println (Str '' ppm: '')
                           (Serial_println (Num ppm_i)
                             (Serial_println (Str ''Measured Rs/Ro for '') st4)))
               in if isnan measured \<or> fle measured (Fin 0) then
                    Some (Inl (Serial_println
                      (Str ''Invalid measurement detected; aborting calibration.'') st5))
                  else (case collect_points b pin Ro rest st5 of
                          None \<Rightarrow> None
                        | Some (Inl st') \<Rightarrow> Some (Inl st')
                        | Some (Inr (rsroList, st')) \<Rightarrow> Some (Inr (measured # rsroList, st')))))"

text \<open>The sensor code of the command line: the pin and the \<open>Ro\<close> of that sensor.\<close>

definition sensor_pin :: "int \<Rightarrow> sketch \<Rightarrow> (int \<times> cfloat) option" where
  "sensor_pin sensor st =
     (if sensor = 2 then Some (MQ2_PIN, Ro_MQ2 st)
      else if sensor = 7 then Some (MQ7_PIN, Ro_MQ7 st)
      else if sensor = 4 then Some (MQ4_PIN, Ro_MQ4 st)
      else if sensor = 9 then Some (MQ9_PIN, Ro_MQ9 st)
      else if sensor = 135 then Some (MQ135_PIN, Ro_MQ135 st)
      else if sensor = 8 then Some (MQ8_PIN, Ro_MQ8 st)
      else None)"

definition calibration_banner :: "sketch \<Rightarrow> sketch" where
  "calibration_banner st =
     Serial_println (Str ''Enter line now:'')
      (Serial_println (Str ''Example: 2 3 10 50 100  -- will calibrate MQ2 with 3 reference concentrations (10,50,100 ppm).'')
       (Serial_println (Str ''Sensor codes: 2=MQ2,7=MQ7,4=MQ4,9=MQ9,135=MQ135,8=MQ8'')
        (Serial_println (Str ''Format: <sensor> <N> <ppm1> <ppm2> ... <ppmN>'')
         (Serial_println (Str ''Starting calibration (multi-point).'') st))))"

text \<open>
  What \<^verbatim>\<open>handleSerialCalibration\<close> does with a fitted curve: it prints the three
  coefficients. There is no assignment to any curve.
\<close>

definition print_curve :: "curve \<Rightarrow> sketch \<Rightarrow> sketch" where
  "print_curve newCurve st =
     (case newCurve of (c0, c1, c2) \<Rightarrow>
        Serial_println (Str ''You can copy these values into the sketch for this sensor's curve.'')
         (Serial_println (Num c2) (Serial_println (Str '', '')
           (Serial_println (Num c1) (Serial_println (Str '', '')
             (Serial_println (Num c0)
               (Serial_println (Str ''Computed pcurve (p0, p1, p2):'') st)))))))"

text \<open>
  \<^verbatim>\<open>handleSerialCalibration\<close> is split in three at the points where its input is
  complete: the command byte and the line (\<open>handleSerialCalibration\<close>), the tokens of the
  line (\<open>parse_command\<close>), and the measurements with the fit (\<open>calibrate_sensor\<close>).
\<close>

definition calibrate_sensor ::
  "board \<Rightarrow> int \<Rightarrow> int \<Rightarrow> cfloat list \<Rightarrow> sketch \<Rightarrow> sketch option" where
  "calibrate_sensor b sensor N ppmList st =
     (case sensor_pin sensor st of
        None \<Rightarrow> Some (Serial_println (Str ''Unknown sensor code.'') st)
      | Some (pin, Ro) \<Rightarrow>
          (case collect_points b pin Ro ppmList st of
             None \<Rightarrow> None
           | Some (Inl st') \<Rightarrow> Some st'
           | Some (Inr (rsroList, st')) \<Rightarrow>
               (case computeMultiPointCurve ppmList rsroList N of
                  None \<Rightarrow> Some (Serial_println (Str
                    ''Curve fit failed (degenerate data). Try different points or more spread.'') st')
                | Some newCurve \<Rightarrow> Some (print_curve newCurve st'))))"

definition parse_command :: "board \<Rightarrow> string \<Rightarrow> sketch \<Rightarrow> sketch option" where
  "parse_command b line st =
     (case strtok_all (take 127 line) [] of
        [] \<Rightarrow> Some (Serial_println (Str ''Parse error'') st)
      | tok # toks \<Rightarrow>
          (case toks of
             [] \<Rightarrow> Some (Serial_println (Str ''Parse error: missing N'') st)
           | tokN # toks' \<Rightarrow>
               (let sensor = atoi b tok; N = atoi b tokN
                in if N < 2 \<or> N > 10
                   then Some (Serial_println (Str ''Invalid N: must be between 2 and 10'') st)
                   else (case parse_ppm b (nat N) toks' of
                           Inl e \<Rightarrow> Some (Serial_println (Str e) st)
                         | Inr ppmList \<Rightarrow> calibrate_sensor b sensor N ppmList st))))"

definition handleSerialCalibration :: "board \<Rightarrow> sketch \<Rightarrow> sketch option" where
  "handleSerialCalibration b st =
     (case serial_in st of
        [] \<Rightarrow> Some st
      | cmd # pending \<Rightarrow>
          (let st0 = st\<lparr>serial_in := pending\<rparr>
           in if cmd \<noteq> CHR ''C'' \<and> cmd \<noteq> CHR ''c'' then Some st0
              else (let st1 = calibration_banner st0
                    in if serial_in st1 = [] then None
                       else (let (entered, st2) = Serial_readStringUntil (CHR 0x0A) st1;
                                 line = trim entered
                             in if length line = 0
                                then Some (Serial_println (Str ''No input, aborting.'') st2)
                                else parse_command b line st2))))"

subsection \<open>The measurement cycle\<close>

text \<open>
  One line of \<^verbatim>\<open>loop\<close>: \<^verbatim>\<open>MQGetGasPercentage(MQRead(pin, Ro)/Ro, tmpCurve)\<close>, with
  \<^verbatim>\<open>tmpCurve\<close> just read from the \<^verbatim>\<open>PROGMEM\<close> array \<open>pcurve\<close>.
\<close>

definition estimate :: "board \<Rightarrow> int \<Rightarrow> cfloat \<Rightarrow> curve \<Rightarrow> sketch \<Rightarrow> cfloat \<times> sketch" where
  "estimate b pin Ro pcurve st =
     (let (rs, st') = MQRead b pin Ro st in (MQGetGasPercentage (fdiv rs Ro) pcurve, st'))"

text \<open>The thirteen estimates and the two DHT readings of a cycle, in the order of the source.\<close>

definition measure_cycle :: "board \<Rightarrow> sketch \<Rightarrow> snapshot \<times> sketch" where
  "measure_cycle b st =
     (let (lpg, s1) = estimate b MQ2_PIN (Ro_MQ2 st) MQ2Curve st;
          (co, s2) = estimate b MQ2_PIN (Ro_MQ2 s1) COCurve s1;
          (smoke, s3) = estimate b MQ2_PIN (Ro_MQ2 s2) SmokeCurve s2;
          (co_mq7, s4) = estimate b MQ7_PIN (Ro_MQ7 s3) MQ7Curve s3;
          (ch4, s5) = estimate b MQ4_PIN (Ro_MQ4 s4) MQ4Curve s4;
          (co_mq9, s6) = estimate b MQ9_PIN (Ro_MQ9 s5) MQ9Curve s5;
          (co2, s7) = estimate b MQ135_PIN (Ro_MQ135 s6) CO2Curve s6;
          (nh3, s8) = estimate b MQ135_PIN (Ro_MQ135 s7) NH3Curve s7;
          (nox, s9) = estimate b MQ135_PIN (Ro_MQ135 s8) NOxCurve s8;
          (alcohol, s10) = estimate b MQ135_PIN (Ro_MQ135 s9) AlcoholCurve s9;
          (benzene, s11) = estimate b MQ135_PIN (Ro_MQ135 s10) BenzeneCurve s10;
          (h2, s12) = estimate b MQ8_PIN (Ro_MQ8 s11) MQ8Curve s11;
          (air, s13) = estimate b MQ8_PIN (Ro_MQ8 s12) AirCurve s12;
          humidity = readHumidity b (tick s13);
          temperature = readTemperature b (tick s13);
          idx = calculateSDAQI co co_mq7 co_mq9 ch4 h2 co2 nox air
      in (\<lparr> LPG = lpg, CO = co, Smoke = smoke, CO_MQ7 = co_mq7, CH4 = ch4, CO_MQ9 = co_mq9,
            CO2 = co2, NH3 = nh3, NOx = nox, Alcohol = alcohol, Benzene = benzene, H2 = h2,
            Air = air, Temperature = temperature, Humidity = humidity,
            SD_AQI = idx, SD_AQI_level = severity idx \<rparr>, s13))"

text \<open>The guard of \<^verbatim>\<open>loop\<close>: all fifteen readings are numbers.\<close>

definition all_valid :: "snapshot \<Rightarrow> bool" where
  "all_valid j =
     (\<not> isnan (LPG j) \<and> \<not> isnan (CO j) \<and> \<not> isnan (Smoke j) \<and> \<not> isnan (CO_MQ7 j)
      \<and> \<not> isnan (CH4 j) \<and> \<not> isnan (CO_MQ9 j) \<and> \<not> isnan (CO2 j) \<and> \<not> isnan (NH3 j)
      \<and> \<not> isnan (NOx j) \<and> \<not> isnan (Alcohol j) \<and> \<not> isnan (Benzene j) \<and> \<not> isnan (H2 j)
      \<and> \<not> isnan (Air j) \<and> \<not> isnan (Humidity j) \<and> \<not> isnan (Temperature j))"

text \<open>
  \<^verbatim>\<open>loop\<close> after the calibration check, with \<^verbatim>\<open>JSON_ONLY\<close> and \<^verbatim>\<open>ENABLE_XBEE\<close> both 1:
  the JSON line goes to both ports, the error line to Serial only. The index and the
  label are computed inside the guard in the source; here they are fields of the record
  that is only emitted inside the guard.
\<close>

definition loop_body :: "board \<Rightarrow> sketch \<Rightarrow> sketch" where
  "loop_body b st =
     (let (j, s) = measure_cycle b st
      in if all_valid j then XBee_println (Json j) (Serial_println (Json j) s)
         else Serial_println (Str ''Error: Invalid or missing sensor readings.'') s)"

text \<open>\<^verbatim>\<open>loop\<close>; \<open>None\<close> when the calibration dialogue waits for input that never comes.\<close>

definition loop :: "board \<Rightarrow> sketch \<Rightarrow> sketch option" where
  "loop b st =
     (case handleSerialCalibration b st of
        None \<Rightarrow> None
      | Some st' \<Rightarrow> Some (loop_body b st'))"

subsection \<open>Accessors and example boards used in the statements\<close>

definition sensor_pins :: "int list" where
  "sensor_pins = [MQ2_PIN, MQ7_PIN, MQ4_PIN, MQ9_PIN, MQ135_PIN, MQ8_PIN]"

text \<open>The smoothing state that \<^verbatim>\<open>MQRead\<close> keeps for a pin (by its dispatch on the pin).\<close>

definition SmoothedRS :: "int \<Rightarrow> sketch \<Rightarrow> cfloat" where
  "SmoothedRS mq_pin st =
     (if mq_pin = MQ2_PIN then SmoothedRS_MQ2 st
      else if mq_pin = MQ7_PIN then SmoothedRS_MQ7 st
      else if mq_pin = MQ4_PIN then SmoothedRS_MQ4 st
      else if mq_pin = MQ9_PIN then SmoothedRS_MQ9 st
      else if mq_pin = MQ135_PIN then SmoothedRS_MQ135 st
      else SmoothedRS_MQ8 st)"

fun is_json :: "msg \<Rightarrow> bool" where
  "is_json (Json j) = True"
| "is_json _ = False"

text \<open>
  A board around a given ADC: the DHT reads 50 % and 20 degrees, and the parsers know
  the three numerals that the example command line uses.
\<close>

definition bench :: "(int \<Rightarrow> nat \<Rightarrow> int) \<Rightarrow> board" where
  "bench adc = \<lparr> analogRead = adc, readHumidity = (\<lambda>n. Fin 50), readTemperature = (\<lambda>n. Fin 20),
      atoi = (\<lambda>s. if s = ''2'' then 2 else 0),
      atof = (\<lambda>s. if s = ''10'' then Fin 10 else if s = ''100'' then Fin 100 else Fin 0) \<rparr>"


text \<open>The MQ-2 input stuck at 0, every other input at 93 (a resistance of 100).\<close>

definition mq2_stuck :: "int \<Rightarrow> nat \<Rightarrow> int" where
  "mq2_stuck pin n = (if pin = MQ2_PIN then 0 else 93)"

text \<open>Five conversions of 93, then the input saturated at 1023.\<close>

definition saturating :: "int \<Rightarrow> nat \<Rightarrow> int" where
  "saturating pin n = (if n < 5 then 93 else 1023)"

text \<open>Every conversion 93.\<close>

definition steady :: "int \<Rightarrow> nat \<Rightarrow> int" where
  "steady pin n = 93"

text \<open>
  Fifty conversions of 31 (Rs/Ro = 32 at Ro = 10), then 341 (Rs/Ro = 2): the sensor in
  10 ppm and then in 100 ppm of its gas.
\<close>

definition two_exposures :: "int \<Rightarrow> nat \<Rightarrow> int" where
  "two_exposures pin n = (if n < 50 then 31 else 341)"

text \<open>
  The operator's input: the command byte \<open>C\<close>, at once the line "2 2 10 100" with its
  newline, and Enter twice.
\<close>

definition operator_input :: string where
  "operator_input = ''C2 2 10 100'' @ [CHR 0x0A, CHR 0x0A, CHR 0x0A]"

text \<open>
  The example session on \<open>bench two_exposures\<close>: the state with the operator's input
  pending, the state when the command line has been read, the state when both points
  have been measured, and the curve that the fit returns for them.
\<close>

definition session_start :: sketch where
  "session_start = power_on\<lparr>serial_in := operator_input\<rparr>"

definition session_parsed :: sketch where
  "session_parsed = power_on\<lparr>serial_in := [CHR 0x0A, CHR 0x0A],
     serial_out :=
       [Str ''Starting calibration (multi-point).'',
        Str ''Format: <sensor> <N> <ppm1> <ppm2> ... <ppmN>'',
        Str ''Sensor codes: 2=MQ2,7=MQ7,4=MQ4,9=MQ9,135=MQ135,8=MQ8'',
        Str ''Example: 2 3 10 50 100  -- will calibrate MQ2 with 3 reference concentrations (10,50,100 ppm).'',
        Str ''Enter line now:'']\<rparr>"

definition session_measured :: sketch where
  "session_measured = power_on\<lparr>tick := 100,
     serial_out :=
       [Str ''Starting calibration (multi-point).'',
        Str ''Format: <sensor> <N> <ppm1> <ppm2> ... <ppmN>'',
        Str ''Sensor codes: 2=MQ2,7=MQ7,4=MQ4,9=MQ9,135=MQ135,8=MQ8'',
        Str ''Example: 2 3 10 50 100  -- will calibrate MQ2 with 3 reference concentrations (10,50,100 ppm).'',
        Str ''Enter line now:'',
        Str ''Please expose sensor to ppm='', Num (Fin 10),
        Str ''When ready press Enter in Serial Monitor to measure...'',
        Str ''Measured Rs/Ro for '', Num (Fin 10), Str '' ppm: '', Num (Fin 32),
        Str ''Please expose sensor to ppm='', Num (Fin 100),
        Str ''When ready press Enter in Serial Monitor to measure...'',
        Str ''Measured Rs/Ro for '', Num (Fin 100), Str '' ppm: '', Num (Fin 2)]\<rparr>"

definition fitted_curve :: curve where
  "fitted_curve = (Fin (3 / 2), Fin (3 * ln 2), Fin (- (4 * ln 2)))"

text \<open>
  The thirteen estimate lines of \<^verbatim>\<open>loop\<close> as a table (pin, \<open>Ro\<close> variable, curve), and the
  same sequence of calls as a recursion over the table; \<open>measure_cycle_table\<close> below
  shows that \<open>measure_cycle\<close> is this sequence.
\<close>

definition channel_table :: "(int \<times> (sketch \<Rightarrow> cfloat) \<times> curve) list" where
  "channel_table =
     [(MQ2_PIN, Ro_MQ2, MQ2Curve), (MQ2_PIN, Ro_MQ2, COCurve), (MQ2_PIN, Ro_MQ2, SmokeCurve),
      (MQ7_PIN, Ro_MQ7, MQ7Curve), (MQ4_PIN, Ro_MQ4, MQ4Curve), (MQ9_PIN, Ro_MQ9, MQ9Curve),
      (MQ135_PIN, Ro_MQ135, CO2Curve), (MQ135_PIN, Ro_MQ135, NH3Curve),
      (MQ135_PIN, Ro_MQ135, NOxCurve), (MQ135_PIN, Ro_MQ135, AlcoholCurve),
      (MQ135_PIN, Ro_MQ135, BenzeneCurve), (MQ8_PIN, Ro_MQ8, MQ8Curve),
      (MQ8_PIN, Ro_MQ8, AirCurve)]"

fun run_channels ::
  "board \<Rightarrow> (int \<times> (sketch \<Rightarrow> cfloat) \<times> curve) list \<Rightarrow> sketch \<Rightarrow> cfloat list \<times> sketch" where
  "run_channels b [] st = ([], st)"
| "run_channels b ((pin, Ro_of, pcurve) # rest) st =
     (let (v, st1) = estimate b pin (Ro_of st) pcurve st;
          (vs, st2) = run_channels b rest st1
      in (v # vs, st2))"

text \<open>
  The second state has the sensor variables (every \<open>Ro\<close> and every smoothed resistance)
  and the XBee output of the first.
\<close>

definition sensors_kept :: "sketch \<Rightarrow> sketch \<Rightarrow> bool" where
  "sensors_kept st st' =
     (Ro_MQ2 st' = Ro_MQ2 st \<and> Ro_MQ7 st' = Ro_MQ7 st \<and> Ro_MQ4 st' = Ro_MQ4 st
      \<and> Ro_MQ9 st' = Ro_MQ9 st \<and> Ro_MQ135 st' = Ro_MQ135 st \<and> Ro_MQ8 st' = Ro_MQ8 st
      \<and> SmoothedRS_MQ2 st' = SmoothedRS_MQ2 st \<and> SmoothedRS_MQ7 st' = SmoothedRS_MQ7 st
      \<and> SmoothedRS_MQ4 st' = SmoothedRS_MQ4 st \<and> SmoothedRS_MQ9 st' = SmoothedRS_MQ9 st
      \<and> SmoothedRS_MQ135 st' = SmoothedRS_MQ135 st \<and> SmoothedRS_MQ8 st' = SmoothedRS_MQ8 st
      \<and> xbee_out st' = xbee_out st)"

section \<open>Properties\<close>

subsection \<open>Floating-point arithmetic on finite values\<close>

lemma fsub_Fin [simp]: "fsub (Fin a) (Fin b) = Fin (a - b)"
  by (simp add: fsub_def)

lemma fmul_Fin:
  "fmul (Fin a) (Fin b) = (if a * b = 0 then signed_zero ((a < 0) \<noteq> (b < 0)) else Fin (a * b))"
  by (simp add: fmul_def)

lemma fmul_Fin_pos [simp]: "0 < a \<Longrightarrow> fmul (Fin a) (Fin b) = Fin (a * b)"
  by (auto simp: fmul_def signed_zero_def)

lemma fmul_pos_Fin [simp]: "0 < b \<Longrightarrow> fmul (Fin a) (Fin b) = Fin (a * b)"
  by (auto simp: fmul_def signed_zero_def)

lemma fmul_Fin_nonzero [simp]: "a \<noteq> 0 \<Longrightarrow> b \<noteq> 0 \<Longrightarrow> fmul (Fin a) (Fin b) = Fin (a * b)"
  by (simp add: fmul_def)

lemma fmul_NaN [simp]: "fmul NaN b = NaN" "fmul a NaN = NaN"
  by (simp_all add: fmul_def)

lemma fdiv_Fin:
  "fdiv (Fin a) (Fin b) =
     (if b = 0 then (if a = 0 then NaN else signed_inf ((a < 0) \<noteq> (b < 0)))
      else if a = 0 then signed_zero ((a < 0) \<noteq> (b < 0)) else Fin (a / b))"
  by (simp add: fdiv_def)

lemma fdiv_Fin_pos [simp]: "0 < b \<Longrightarrow> fdiv (Fin a) (Fin b) = Fin (a / b)"
  by (auto simp: fdiv_def signed_zero_def)

lemma fdiv_Fin_nonzero [simp]: "a \<noteq> 0 \<Longrightarrow> b \<noteq> 0 \<Longrightarrow> fdiv (Fin a) (Fin b) = Fin (a / b)"
  by (simp add: fdiv_def)

lemma fdiv_NaN [simp]: "fdiv NaN b = NaN" "fdiv a NaN = NaN"
  by (simp_all add: fdiv_def)

lemma fadd_signed_zero [simp]:
  "fadd (Fin a) (signed_zero s) = Fin a" "fadd (signed_zero s) (Fin a) = Fin a"
  by (simp_all add: signed_zero_def)

lemma fsub_signed_zero [simp]: "fsub (Fin a) (signed_zero s) = Fin a"
  by (simp add: fsub_def signed_zero_def)

lemma fadd_fdiv_Fin [simp]:
  "b \<noteq> 0 \<Longrightarrow> fadd (fdiv (Fin a) (Fin b)) (Fin c) = Fin (a / b + c)"
  "b \<noteq> 0 \<Longrightarrow> fadd (Fin c) (fdiv (Fin a) (Fin b)) = Fin (c + a / b)"
  by (simp_all add: fdiv_Fin)

lemma fsub_fdiv_Fin [simp]:
  "b \<noteq> 0 \<Longrightarrow> fsub (Fin c) (fdiv (Fin a) (Fin b)) = Fin (c - a / b)"
  by (simp add: fdiv_Fin)

lemma fdiv_by_zero [simp]:
  "a \<noteq> 0 \<Longrightarrow> fdiv (Fin a) (signed_zero s) = signed_inf ((a < 0) \<noteq> s)"
  by (simp add: fdiv_def signed_zero_def)

lemma fdiv_by_inf [simp]:
  "fdiv (Fin a) PInf = signed_zero (a < 0)" "fdiv (Fin a) NInf = signed_zero (\<not> a < 0)"
  by (simp_all add: fdiv_def)

subsection \<open>Sampler\<close>


lemma retry_loop_frame:
  "\<exists>v t. retry_loop b pin k val st = (v, st\<lparr>tick := t\<rparr>) \<and> tick st \<le> t \<and> t \<le> tick st + k
      \<and> (if k = 0 then v = val else tick st < t \<and> (\<exists>n. v = analogRead b pin n))"
proof (induction k arbitrary: val st)
  case 0
  show ?case
    by (rule exI [of _ val], rule exI [of _ "tick st"]) simp
next
  case (Suc k)
  let ?v = "analogRead b pin (tick st)"
  let ?st = "st\<lparr>tick := Suc (tick st)\<rparr>"
  show ?case
  proof (cases "?v > 0 \<and> ?v < 1023")
    case True
    then have "retry_loop b pin (Suc k) val st = (?v, ?st)" by (simp add: Let_def)
    moreover have "tick st < Suc (tick st)" "Suc (tick st) \<le> tick st + Suc k" by simp_all
    ultimately show ?thesis by (intro exI [of _ ?v] exI [of _ "Suc (tick st)"]) auto
  next
    case False
    have eq: "retry_loop b pin (Suc k) val st = retry_loop b pin k ?v ?st"
      using False by (auto simp: Let_def)
    from Suc.IH [of ?v ?st] obtain v t where r:
      "retry_loop b pin k ?v ?st = (v, ?st\<lparr>tick := t\<rparr>)" "tick ?st \<le> t" "t \<le> tick ?st + k"
      "if k = 0 then v = ?v else tick ?st < t \<and> (\<exists>n. v = analogRead b pin n)" by blast
    have "retry_loop b pin (Suc k) val st = (v, st\<lparr>tick := t\<rparr>)" using eq r(1) by simp
    moreover have "tick st < t" "t \<le> tick st + Suc k" using r(2,3) by simp_all
    moreover have "\<exists>n. v = analogRead b pin n" using r(4) by (cases "k = 0") auto
    ultimately show ?thesis by (intro exI [of _ v] exI [of _ t]) simp
  qed
qed

lemma analogReadWithRetries_frame:
  "\<exists>v t. analogReadWithRetries b pin st = (v, st\<lparr>tick := t\<rparr>)
      \<and> tick st < t \<and> t \<le> tick st + ANALOG_READ_RETRIES
      \<and> (\<exists>n. v = analogRead b pin n)"
  using retry_loop_frame [of b pin ANALOG_READ_RETRIES 0 st]
  by (simp add: analogReadWithRetries_def ANALOG_READ_RETRIES_def) blast

lemma sample_loop_frame:
  "\<exists>vs t. sample_loop b pin k st = (vs, st\<lparr>tick := t\<rparr>) \<and> length vs = k
      \<and> tick st + k \<le> t \<and> t \<le> tick st + k * ANALOG_READ_RETRIES
      \<and> (\<forall>v \<in> set vs. \<exists>n. v = analogRead b pin n)"
proof (induction k arbitrary: st)
  case 0
  show ?case
    by (rule exI [of _ "[]"], rule exI [of _ "tick st"]) simp
next
  case (Suc k)
  from analogReadWithRetries_frame [of b pin st] obtain v t where
    v: "analogReadWithRetries b pin st = (v, st\<lparr>tick := t\<rparr>)" "tick st < t"
       "t \<le> tick st + ANALOG_READ_RETRIES" "\<exists>n. v = analogRead b pin n" by blast
  let ?st = "st\<lparr>tick := t\<rparr>"
  from Suc.IH [of ?st] obtain vs t' where
    vs: "sample_loop b pin k ?st = (vs, ?st\<lparr>tick := t'\<rparr>)" "length vs = k"
        "tick ?st + k \<le> t'" "t' \<le> tick ?st + k * ANALOG_READ_RETRIES"
        "\<forall>v \<in> set vs. \<exists>n. v = analogRead b pin n" by blast
  have "sample_loop b pin (Suc k) st = (v # vs, st\<lparr>tick := t'\<rparr>)"
    using v(1) vs(1) by simp
  moreover have "tick st + Suc k \<le> t'" using v(2) vs(3) by simp
  moreover have "t' \<le> tick st + Suc k * ANALOG_READ_RETRIES" using v(3) vs(4) by simp
  moreover have "length (v # vs) = Suc k" using vs(2) by simp
  moreover have "\<forall>x \<in> set (v # vs). \<exists>n. x = analogRead b pin n" using v(4) vs(5) by simp
  ultimately show ?case by (intro exI [of _ "v # vs"] exI [of _ t']) simp
qed

















subsection \<open>Resistance model\<close>

lemma MQResistanceCalculation_zero:
  "MQResistanceCalculation 0 st = (NaN, Serial_println (Str ''Error: Invalid ADC value (0)'') st)"
  by (simp add: MQResistanceCalculation_def)

lemma MQResistanceCalculation_nonzero:
  "raw \<noteq> 0 \<Longrightarrow>
     MQResistanceCalculation raw st = (Fin (10 * (1023 - of_int raw) / of_int raw), st)"
  by (auto simp: MQResistanceCalculation_def float_of_int_def RL_VALUE_def fdiv_Fin
      signed_zero_def)

text \<open>
  C9. \<^verbatim>\<open>MQResistanceCalculation\<close> computes \<open>RL_VALUE * (1023 - raw) / raw\<close> with
  \<open>RL_VALUE = 10\<close>. For \<open>1 \<le> raw < 1023\<close> the result is a finite, strictly positive
  number and nothing is printed. For \<open>raw = 0\<close> no division takes place: the function
  prints the error line and returns NaN.
\<close>

theorem MQResistanceCalculation_positive:
  "MQResistanceCalculation 0 st
      = (NaN, Serial_println (Str ''Error: Invalid ADC value (0)'') st)
   \<and> (1 \<le> raw \<and> raw < 1023 \<longrightarrow>
        MQResistanceCalculation raw st
          = (Fin (of_int RL_VALUE * (1023 - of_int raw) / of_int raw), st)
        \<and> (0::real) < of_int RL_VALUE * (1023 - of_int raw) / of_int raw)"
  by (simp add: MQResistanceCalculation_zero MQResistanceCalculation_nonzero RL_VALUE_def)

theorem MQResistanceCalculation_positive_witness:
  "(1::int) \<le> 93 \<and> (93::int) < 1023
   \<and> MQResistanceCalculation 93 power_on = (Fin 100, power_on)"
  using MQResistanceCalculation_positive [of power_on 93] by (simp add: RL_VALUE_def)

subsection \<open>Alerts\<close>

lemmas threshold_defs = MAX_CO2_THRESHOLD_def MAX_CO_THRESHOLD_def MAX_NOX_THRESHOLD_def
  MAX_HYDROCARBONS_THRESHOLD_def MAX_MOISTURE_THRESHOLD_def

lemma serial_out_alert [simp]: "serial_out (alert m st) = serial_out st @ [Str m]"
  by (simp add: alert_def Serial_println_def XBee_println_def)

lemma xbee_out_alert [simp]: "xbee_out (alert m st) = xbee_out st @ [Str m]"
  by (simp add: alert_def Serial_println_def XBee_println_def)

text \<open>
  C5. \<^verbatim>\<open>evaluateAirQuality\<close> receives the five gas estimates and the humidity, and no
  index. It compares each with its own ceiling and prints one alert line per breach, in
  the order CO2, CO, LPG, NOx, benzene, humidity, on both ports. A CO2 estimate of 600
  with every other input 0 prints exactly the CO2 alert.
\<close>

theorem evaluateAirQuality_alerts:
  "serial_out (evaluateAirQuality co2 co lpg nox benzene humidity st) = serial_out st @
     (if fgt co2 (Fin 500)
      then [Str ''ALERT: Carbon Dioxide (CO2) level exceeds safe threshold!''] else []) @
     (if fgt co (Fin 15)
      then [Str ''ALERT: Carbon Monoxide (CO) level exceeds safe threshold!''] else []) @
     (if fgt lpg (Fin 1) then [Str ''ALERT: LPG level exceeds safe threshold!''] else []) @
     (if fgt nox (Fin 2)
      then [Str ''ALERT: Nitrogen Oxides (NOx) level exceeds safe threshold!''] else []) @
     (if fgt benzene (Fin 1) then [Str ''ALERT: Benzene level exceeds safe threshold!''] else []) @
     (if fgt humidity (Fin 60) then [Str ''ALERT: Humidity exceeds safe threshold!''] else [])
   \<and> xbee_out (evaluateAirQuality co2 co lpg nox benzene humidity st) = xbee_out st @
     (if fgt co2 (Fin 500)
      then [Str ''ALERT: Carbon Dioxide (CO2) level exceeds safe threshold!''] else []) @
     (if fgt co (Fin 15)
      then [Str ''ALERT: Carbon Monoxide (CO) level exceeds safe threshold!''] else []) @
     (if fgt lpg (Fin 1) then [Str ''ALERT: LPG level exceeds safe threshold!''] else []) @
     (if fgt nox (Fin 2)
      then [Str ''ALERT: Nitrogen Oxides (NOx) level exceeds safe threshold!''] else []) @
     (if fgt benzene (Fin 1) then [Str ''ALERT: Benzene level exceeds safe threshold!''] else []) @
     (if fgt humidity (Fin 60) then [Str ''ALERT: Humidity exceeds safe threshold!''] else [])
   \<and> serial_out (evaluateAirQuality (Fin 600) (Fin 0) (Fin 0) (Fin 0) (Fin 0) (Fin 0) st) =
       serial_out st @ [Str ''ALERT: Carbon Dioxide (CO2) level exceeds safe threshold!'']"
  by (simp add: evaluateAirQuality_def threshold_defs Let_def fgt_def)

text \<open>
  C10. Every comparison of \<^verbatim>\<open>evaluateAirQuality\<close> is strict: on finite inputs an alert
  is printed exactly when the value is greater than its ceiling, and inputs equal to
  their ceilings (CO2 500, CO 15, LPG 1, NOx 2, benzene 1, humidity 60) raise no alert;
  nor do NaN inputs, for which every comparison is false.
\<close>

theorem evaluateAirQuality_strict:
  "serial_out (evaluateAirQuality (Fin co2) (Fin co) (Fin lpg) (Fin nox) (Fin benzene) (Fin humidity) st)
     = serial_out st @
     (if co2 > 500
      then [Str ''ALERT: Carbon Dioxide (CO2) level exceeds safe threshold!''] else []) @
     (if co > 15
      then [Str ''ALERT: Carbon Monoxide (CO) level exceeds safe threshold!''] else []) @
     (if lpg > 1 then [Str ''ALERT: LPG level exceeds safe threshold!''] else []) @
     (if nox > 2
      then [Str ''ALERT: Nitrogen Oxides (NOx) level exceeds safe threshold!''] else []) @
     (if benzene > 1 then [Str ''ALERT: Benzene level exceeds safe threshold!''] else []) @
     (if humidity > 60 then [Str ''ALERT: Humidity exceeds safe threshold!''] else [])
   \<and> evaluateAirQuality (Fin 500) (Fin 15) (Fin 1) (Fin 2) (Fin 1) (Fin 60) st = st
   \<and> evaluateAirQuality NaN NaN NaN NaN NaN NaN st = st"
  by (simp add: evaluateAirQuality_def threshold_defs Let_def fgt_def)

subsection \<open>Composite index\<close>

lemma measure_cycle_index:
  "SD_AQI (fst (measure_cycle b st)) =
       calculateSDAQI (CO (fst (measure_cycle b st))) (CO_MQ7 (fst (measure_cycle b st)))
         (CO_MQ9 (fst (measure_cycle b st))) (CH4 (fst (measure_cycle b st)))
         (H2 (fst (measure_cycle b st))) (CO2 (fst (measure_cycle b st)))
         (NOx (fst (measure_cycle b st))) (Air (fst (measure_cycle b st)))
   \<and> SD_AQI_level (fst (measure_cycle b st)) = severity (SD_AQI (fst (measure_cycle b st)))"
  unfolding measure_cycle_def
  by (simp only: Let_def split_beta fst_conv snd_conv snapshot.simps simp_thms)


text \<open>
  C4. \<^verbatim>\<open>calculateSDAQI\<close> is the weighted sum with the weights 0.05, 0.10, 0.10, 0.10,
  0.05, 0.50, 0.10, 0.05 of the estimates as they are; the cycle passes the estimates
  to it unchanged. For all-zero estimates the index is 0 and the label is the first of
  the ladder, "Excellent".
\<close>

theorem calculateSDAQI_linear:
  "calculateSDAQI (Fin co) (Fin co_mq7) (Fin co_mq9) (Fin ch4) (Fin h2) (Fin co2) (Fin nox) (Fin air)
     = Fin (0.05 * co + 0.10 * co_mq7 + 0.10 * co_mq9 + 0.10 * ch4 + 0.05 * h2 + 0.50 * co2
            + 0.10 * nox + 0.05 * air)
   \<and> calculateSDAQI (Fin 0) (Fin 0) (Fin 0) (Fin 0) (Fin 0) (Fin 0) (Fin 0) (Fin 0) = Fin 0
   \<and> severity (Fin 0) = ''Excellent''
   \<and> SD_AQI (fst (measure_cycle b st)) =
       calculateSDAQI (CO (fst (measure_cycle b st))) (CO_MQ7 (fst (measure_cycle b st)))
         (CO_MQ9 (fst (measure_cycle b st))) (CH4 (fst (measure_cycle b st)))
         (H2 (fst (measure_cycle b st))) (CO2 (fst (measure_cycle b st)))
         (NOx (fst (measure_cycle b st))) (Air (fst (measure_cycle b st)))
   \<and> SD_AQI_level (fst (measure_cycle b st)) = severity (SD_AQI (fst (measure_cycle b st)))"
  using measure_cycle_index [of b st] by (simp add: calculateSDAQI_def severity_def)

subsection \<open>Smoother\<close>

lemmas pin_defs = MQ2_PIN_def MQ7_PIN_def MQ4_PIN_def MQ9_PIN_def MQ135_PIN_def MQ8_PIN_def

lemma readAnalogFilteredRaw_frame:
  "\<exists>raw t. readAnalogFilteredRaw b pin st = (raw, st\<lparr>tick := t\<rparr>)
      \<and> tick st + 5 \<le> t \<and> t \<le> tick st + 25"
proof -
  from sample_loop_frame [of b pin READ_SAMPLE_TIMES st] obtain vs t where
    "sample_loop b pin READ_SAMPLE_TIMES st = (vs, st\<lparr>tick := t\<rparr>)"
    "tick st + READ_SAMPLE_TIMES \<le> t" "t \<le> tick st + READ_SAMPLE_TIMES * ANALOG_READ_RETRIES"
    by blast
  then have "snd (readAnalogFilteredRaw b pin st) = st\<lparr>tick := t\<rparr>"
    "tick st + 5 \<le> t" "t \<le> tick st + 25"
    by (simp_all add: readAnalogFilteredRaw_def READ_SAMPLE_TIMES_def ANALOG_READ_RETRIES_def
        split: prod.splits)
  then show ?thesis
    by (intro exI [of _ "fst (readAnalogFilteredRaw b pin st)"] exI [of _ t])
       (simp add: prod_eq_iff)
qed

lemma SmoothedRS_tick [simp]: "SmoothedRS q (st\<lparr>tick := t\<rparr>) = SmoothedRS q st"
  by (simp add: SmoothedRS_def)

lemma SmoothedRS_println [simp]: "SmoothedRS q (Serial_println m st) = SmoothedRS q st"
  by (simp add: SmoothedRS_def Serial_println_def)

lemma MQRead_zero:
  assumes "readAnalogFilteredRaw b pin st = (0, st1)"
  shows "MQRead b pin Ro st = (NaN, Serial_println (Str ''Error: Invalid ADC value (0)'') st1)"
  by (simp add: MQRead_def assms MQResistanceCalculation_zero)

lemma MQRead_nonzero:
  assumes "readAnalogFilteredRaw b pin st = (raw, st1)" and "raw \<noteq> 0"
    and "pin \<in> set sensor_pins"
  shows "fst (MQRead b pin Ro st)
           = ema_update (SmoothedRS pin st1) (Fin (10 * (1023 - of_int raw) / of_int raw))"
    and "SmoothedRS pin (snd (MQRead b pin Ro st))
           = ema_update (SmoothedRS pin st1) (Fin (10 * (1023 - of_int raw) / of_int raw))"
    and "q \<noteq> pin \<Longrightarrow> q \<in> set sensor_pins \<Longrightarrow> SmoothedRS q (snd (MQRead b pin Ro st)) = SmoothedRS q st1"
  using assms
  by (auto simp: MQRead_def MQResistanceCalculation_nonzero Let_def SmoothedRS_def
      sensor_pins_def pin_defs)

lemma MQRead_smoothed:
  assumes "fst (readAnalogFilteredRaw b pin st) = raw" and "raw \<noteq> 0"
    and "pin \<in> set sensor_pins"
  shows "fst (MQRead b pin Ro st)
           = ema_update (SmoothedRS pin st) (Fin (10 * (1023 - of_int raw) / of_int raw))"
    and "SmoothedRS pin (snd (MQRead b pin Ro st))
           = ema_update (SmoothedRS pin st) (Fin (10 * (1023 - of_int raw) / of_int raw))"
proof -
  from readAnalogFilteredRaw_frame [of b pin st] assms(1) obtain t where
    r: "readAnalogFilteredRaw b pin st = (raw, st\<lparr>tick := t\<rparr>)" by auto
  from MQRead_nonzero(1,2) [OF r assms(2,3)]
  show "fst (MQRead b pin Ro st)
           = ema_update (SmoothedRS pin st) (Fin (10 * (1023 - of_int raw) / of_int raw))"
    and "SmoothedRS pin (snd (MQRead b pin Ro st))
           = ema_update (SmoothedRS pin st) (Fin (10 * (1023 - of_int raw) / of_int raw))"
    by simp_all
qed

lemma MQRead_other_pins:
  assumes "q \<noteq> pin" and "q \<in> set sensor_pins"
  shows "SmoothedRS q (snd (MQRead b pin Ro st)) = SmoothedRS q st"
proof -
  from readAnalogFilteredRaw_frame [of b pin st] obtain raw t where
    r: "readAnalogFilteredRaw b pin st = (raw, st\<lparr>tick := t\<rparr>)" by blast
  show ?thesis
    using r assms
    by (auto simp: MQRead_def MQResistanceCalculation_def Let_def SmoothedRS_def
        sensor_pins_def pin_defs Serial_println_def float_of_int_def RL_VALUE_def)
qed

lemma MQRead_invalid:
  assumes "fst (readAnalogFilteredRaw b pin st) = 0"
  shows "fst (MQRead b pin Ro st) = NaN"
    and "SmoothedRS q (snd (MQRead b pin Ro st)) = SmoothedRS q st"
proof -
  from readAnalogFilteredRaw_frame [of b pin st] assms obtain t where
    r: "readAnalogFilteredRaw b pin st = (0, st\<lparr>tick := t\<rparr>)" by auto
  show "fst (MQRead b pin Ro st) = NaN"
    and "SmoothedRS q (snd (MQRead b pin Ro st)) = SmoothedRS q st"
    by (simp_all add: MQRead_zero [OF r])
qed

lemma ema_update_seed: "ema_update (Fin 0) rs = rs"
  by (simp add: ema_update_def)

lemma ema_update_blend:
  "0 < s \<Longrightarrow> ema_update (Fin s) (Fin x) = Fin (0.25 * x + 0.75 * s)"
  by (simp add: ema_update_def EMA_ALPHA_def fsub_def)


text \<open>The sampler on an input that stays at one value for the conversions it makes.\<close>

lemma retry_loop_stuck:
  assumes "\<forall>n. tick st \<le> n \<and> n < tick st + k \<longrightarrow> analogRead b pin n = v"
    and "\<not> (0 < v \<and> v < 1023)"
  shows "retry_loop b pin k val st = (if k = 0 then val else v, st\<lparr>tick := tick st + k\<rparr>)"
  using assms
proof (induction k arbitrary: val st)
  case 0
  show ?case by simp
next
  case (Suc k)
  let ?st = "st\<lparr>tick := Suc (tick st)\<rparr>"
  have v: "analogRead b pin (tick st) = v" using Suc.prems(1) by simp
  have "\<forall>n. tick ?st \<le> n \<and> n < tick ?st + k \<longrightarrow> analogRead b pin n = v"
    using Suc.prems(1) by simp
  from Suc.IH [OF this Suc.prems(2), of v]
  have "retry_loop b pin k v ?st = (if k = 0 then v else v, ?st\<lparr>tick := tick ?st + k\<rparr>)" .
  then show ?case using v Suc.prems(2) by (auto simp: Let_def)
qed

lemma analogReadWithRetries_valid:
  assumes "0 < analogRead b pin (tick st)" and "analogRead b pin (tick st) < 1023"
  shows "analogReadWithRetries b pin st = (analogRead b pin (tick st), st\<lparr>tick := Suc (tick st)\<rparr>)"
proof -
  have "retry_loop b pin (Suc 4) 0 st
          = (analogRead b pin (tick st), st\<lparr>tick := Suc (tick st)\<rparr>)"
    using assms by (simp only: retry_loop.simps Let_def) simp
  then show ?thesis by (simp add: analogReadWithRetries_def ANALOG_READ_RETRIES_def)
qed

lemma sample_loop_steady:
  assumes "\<forall>n. tick st \<le> n \<and> n < tick st + k \<longrightarrow> analogRead b pin n = v"
    and "0 < v" and "v < 1023"
  shows "sample_loop b pin k st = (replicate k v, st\<lparr>tick := tick st + k\<rparr>)"
  using assms
proof (induction k arbitrary: st)
  case 0
  show ?case by simp
next
  case (Suc k)
  let ?st = "st\<lparr>tick := Suc (tick st)\<rparr>"
  have v: "analogRead b pin (tick st) = v" using Suc.prems(1) by simp
  then have first: "analogReadWithRetries b pin st = (v, ?st)"
    using analogReadWithRetries_valid [of b pin st] Suc.prems(2,3) by simp
  have "\<forall>n. tick ?st \<le> n \<and> n < tick ?st + k \<longrightarrow> analogRead b pin n = v"
    using Suc.prems(1) by simp
  from Suc.IH [OF this Suc.prems(2,3)]
  have "sample_loop b pin k ?st = (replicate k v, ?st\<lparr>tick := tick ?st + k\<rparr>)" .
  then show ?case using first by simp
qed

lemma sample_loop_stuck:
  assumes "\<forall>n. tick st \<le> n \<and> n < tick st + k * 5 \<longrightarrow> analogRead b pin n = v"
    and "\<not> (0 < v \<and> v < 1023)"
  shows "sample_loop b pin k st = (replicate k v, st\<lparr>tick := tick st + k * 5\<rparr>)"
  using assms
proof (induction k arbitrary: st)
  case 0
  show ?case by simp
next
  case (Suc k)
  let ?st = "st\<lparr>tick := tick st + 5\<rparr>"
  have "\<forall>n. tick st \<le> n \<and> n < tick st + 5 \<longrightarrow> analogRead b pin n = v"
    using Suc.prems(1) by simp
  from retry_loop_stuck [OF this Suc.prems(2), of 0]
  have first: "analogReadWithRetries b pin st = (v, ?st)"
    by (simp add: analogReadWithRetries_def ANALOG_READ_RETRIES_def)
  have "\<forall>n. tick ?st \<le> n \<and> n < tick ?st + k * 5 \<longrightarrow> analogRead b pin n = v"
    using Suc.prems(1) by simp
  from Suc.IH [OF this Suc.prems(2)]
  have "sample_loop b pin k ?st = (replicate k v, ?st\<lparr>tick := tick ?st + k * 5\<rparr>)" .
  then show ?case using first by (simp add: add.assoc)
qed

lemma trim_five_equal:
  "0 \<le> v \<Longrightarrow> v \<le> 1023 \<Longrightarrow> trim_loop (replicate 5 v) (1024, - 1, 0) = (v, v, 5 * v)"
  by (simp add: eval_nat_numeral)

lemma readAnalogFilteredRaw_steady:
  assumes "\<forall>n. tick st \<le> n \<and> n < tick st + 5 \<longrightarrow> analogRead b pin n = v"
    and "0 < v" and "v < 1023"
  shows "readAnalogFilteredRaw b pin st = (v, st\<lparr>tick := tick st + 5\<rparr>)"
proof -
  have "sample_loop b pin 5 st = (replicate 5 v, st\<lparr>tick := tick st + 5\<rparr>)"
    using sample_loop_steady [OF assms] .
  moreover have "(5 * v - v - v) sdiv 3 = v"
    using assms(2) by (simp add: signed_divide_int_def)
  ultimately show ?thesis
    using assms(2,3) by (simp add: readAnalogFilteredRaw_def READ_SAMPLE_TIMES_def trim_five_equal)
qed

lemma readAnalogFilteredRaw_stuck:
  assumes "\<forall>n. tick st \<le> n \<and> n < tick st + 25 \<longrightarrow> analogRead b pin n = v"
    and "v = 0 \<or> v = 1023"
  shows "readAnalogFilteredRaw b pin st = (v, st\<lparr>tick := tick st + 25\<rparr>)"
proof -
  have "\<forall>n. tick st \<le> n \<and> n < tick st + 5 * 5 \<longrightarrow> analogRead b pin n = v"
    using assms(1) by simp
  moreover have "\<not> (0 < v \<and> v < 1023)" using assms(2) by auto
  ultimately have "sample_loop b pin 5 st = (replicate 5 v, st\<lparr>tick := tick st + 5 * 5\<rparr>)"
    by (rule sample_loop_stuck)
  moreover have "(5 * v - v - v) sdiv 3 = v"
    using assms(2) by (auto simp: signed_divide_int_def)
  ultimately show ?thesis
    using assms(2) by (auto simp: readAnalogFilteredRaw_def READ_SAMPLE_TIMES_def trim_five_equal)
qed

lemma two_exposures_first:
  "readAnalogFilteredRaw (bench two_exposures) MQ2_PIN (power_on\<lparr>tick := 45\<rparr>)
     = (31, power_on\<lparr>tick := 50\<rparr>)"
  using readAnalogFilteredRaw_steady [of "power_on\<lparr>tick := 45\<rparr>" "bench two_exposures" MQ2_PIN 31]
  by (simp add: bench_def two_exposures_def)

lemma two_exposures_second:
  "readAnalogFilteredRaw (bench two_exposures) MQ2_PIN
       (power_on\<lparr>SmoothedRS_MQ2 := Fin 320, tick := 50\<rparr>)
     = (341, power_on\<lparr>SmoothedRS_MQ2 := Fin 320, tick := 55\<rparr>)"
  using readAnalogFilteredRaw_steady
    [of "power_on\<lparr>SmoothedRS_MQ2 := Fin 320, tick := 50\<rparr>" "bench two_exposures" MQ2_PIN 341]
  by (simp add: bench_def two_exposures_def)

lemma MQ2_sensor_pin: "MQ2_PIN \<in> set sensor_pins"
  by (simp add: sensor_pins_def)

text \<open>
  C8. A valid observation (trimmed reading \<open>1 \<le> raw < 1023\<close>, resistance
  \<open>x = 10 * (1023 - raw) / raw\<close>) on one of the six pins seeds an unset state with \<open>x\<close>,
  and blends into a set state \<open>s > 0\<close> as \<open>0.25 * x + 0.75 * s\<close>, which is positive
  again; \<^verbatim>\<open>MQRead\<close> returns the new state; the states of the other pins are not touched.
  Seeding with 100 and feeding 200 gives 125.
\<close>

theorem MQRead_ema:
  "(pin \<in> set sensor_pins \<and> fst (readAnalogFilteredRaw b pin st) = raw \<and> 1 \<le> raw \<and> raw < 1023
      \<longrightarrow>
       fst (MQRead b pin Ro st) = SmoothedRS pin (snd (MQRead b pin Ro st))
     \<and> (SmoothedRS pin st = Fin 0 \<longrightarrow>
          SmoothedRS pin (snd (MQRead b pin Ro st))
            = Fin (10 * (1023 - of_int raw) / of_int raw))
     \<and> (SmoothedRS pin st = Fin s \<and> 0 < s \<longrightarrow>
          SmoothedRS pin (snd (MQRead b pin Ro st))
            = Fin (0.25 * (10 * (1023 - of_int raw) / of_int raw) + 0.75 * s)
          \<and> 0 < 0.25 * (10 * (1023 - of_int raw) / of_int raw) + 0.75 * s))
   \<and> (q \<in> set sensor_pins \<and> q \<noteq> pin \<longrightarrow>
        SmoothedRS q (snd (MQRead b pin Ro st)) = SmoothedRS q st)
   \<and> ema_update (Fin 0) (Fin 100) = Fin 100
   \<and> ema_update (Fin 100) (Fin 200) = Fin 125"
proof (intro conjI impI)
  assume a: "pin \<in> set sensor_pins \<and> fst (readAnalogFilteredRaw b pin st) = raw
     \<and> 1 \<le> raw \<and> raw < 1023"
  then have raw: "raw \<noteq> 0" and pin: "pin \<in> set sensor_pins"
    and r: "fst (readAnalogFilteredRaw b pin st) = raw" by auto
  note m = MQRead_smoothed [OF r raw pin, of Ro]
  show "fst (MQRead b pin Ro st) = SmoothedRS pin (snd (MQRead b pin Ro st))"
    by (simp add: m)
  {
    assume "SmoothedRS pin st = Fin 0"
    then show "SmoothedRS pin (snd (MQRead b pin Ro st))
        = Fin (10 * (1023 - of_int raw) / of_int raw)"
      by (simp add: m ema_update_seed)
  }
  {
    assume s: "SmoothedRS pin st = Fin s \<and> 0 < s"
    then show "SmoothedRS pin (snd (MQRead b pin Ro st))
        = Fin (0.25 * (10 * (1023 - of_int raw) / of_int raw) + 0.75 * s)"
      by (simp add: m ema_update_blend)
    have "(0::real) \<le> 10 * (1023 - of_int raw) / of_int raw" using a by simp
    then show "0 < 0.25 * (10 * (1023 - of_int raw) / of_int raw) + 0.75 * s"
      using s by simp
  }
next
  assume "q \<in> set sensor_pins \<and> q \<noteq> pin"
  then show "SmoothedRS q (snd (MQRead b pin Ro st)) = SmoothedRS q st"
    by (simp add: MQRead_other_pins)
next
  show "ema_update (Fin 0) (Fin 100) = Fin 100" by (simp add: ema_update_seed)
  show "ema_update (Fin 100) (Fin 200) = Fin 125" by (simp add: ema_update_blend)
qed

theorem MQRead_ema_witness:
  "MQ2_PIN \<in> set sensor_pins
   \<and> fst (readAnalogFilteredRaw (bench two_exposures) MQ2_PIN (power_on\<lparr>tick := 45\<rparr>)) = 31
   \<and> SmoothedRS MQ2_PIN (power_on\<lparr>tick := 45\<rparr>) = Fin 0
   \<and> SmoothedRS MQ2_PIN
        (snd (MQRead (bench two_exposures) MQ2_PIN (Fin 10) (power_on\<lparr>tick := 45\<rparr>))) = Fin 320
   \<and> fst (readAnalogFilteredRaw (bench two_exposures) MQ2_PIN
        (power_on\<lparr>SmoothedRS_MQ2 := Fin 320, tick := 50\<rparr>)) = 341
   \<and> SmoothedRS MQ2_PIN (power_on\<lparr>SmoothedRS_MQ2 := Fin 320, tick := 50\<rparr>) = Fin 320
   \<and> SmoothedRS MQ2_PIN
        (snd (MQRead (bench two_exposures) MQ2_PIN (Fin 10)
           (power_on\<lparr>SmoothedRS_MQ2 := Fin 320, tick := 50\<rparr>))) = Fin 245
   \<and> MQ7_PIN \<in> set sensor_pins \<and> MQ7_PIN \<noteq> MQ2_PIN
   \<and> SmoothedRS MQ7_PIN
        (snd (MQRead (bench two_exposures) MQ2_PIN (Fin 10) (power_on\<lparr>tick := 45\<rparr>))) = Fin 0"
  using MQRead_ema [where b = "bench two_exposures" and pin = MQ2_PIN
        and st = "power_on\<lparr>tick := 45\<rparr>" and raw = 31 and Ro = "Fin 10" and q = MQ7_PIN]
    MQRead_ema [where b = "bench two_exposures" and pin = MQ2_PIN
        and st = "power_on\<lparr>SmoothedRS_MQ2 := Fin 320, tick := 50\<rparr>" and raw = 341
        and Ro = "Fin 10" and s = 320 and q = MQ7_PIN]
    two_exposures_first two_exposures_second
  by (simp add: sensor_pins_def pin_defs SmoothedRS_def power_on_def)

lemma saturating_first:
  "readAnalogFilteredRaw (bench saturating) MQ2_PIN power_on = (93, power_on\<lparr>tick := 5\<rparr>)"
  using readAnalogFilteredRaw_steady [of power_on "bench saturating" MQ2_PIN 93]
  by (simp add: bench_def saturating_def power_on_def)

lemma saturating_MQRead_first:
  "MQRead (bench saturating) MQ2_PIN (Fin 10) power_on
     = (Fin 100, power_on\<lparr>SmoothedRS_MQ2 := Fin 100, tick := 5\<rparr>)"
  unfolding MQRead_def saturating_first
  by (simp add: MQResistanceCalculation_nonzero Let_def ema_update_def power_on_def)

lemma saturating_second:
  "readAnalogFilteredRaw (bench saturating) MQ2_PIN
       (power_on\<lparr>SmoothedRS_MQ2 := Fin 100, tick := 5\<rparr>)
     = (1023, power_on\<lparr>SmoothedRS_MQ2 := Fin 100, tick := 30\<rparr>)"
  using readAnalogFilteredRaw_stuck
    [of "power_on\<lparr>SmoothedRS_MQ2 := Fin 100, tick := 5\<rparr>" "bench saturating" MQ2_PIN 1023]
  by (simp add: bench_def saturating_def)

lemma mq2_stuck_read:
  "readAnalogFilteredRaw (bench mq2_stuck) MQ2_PIN st = (0, st\<lparr>tick := tick st + 25\<rparr>)"
  using readAnalogFilteredRaw_stuck [of st "bench mq2_stuck" MQ2_PIN 0]
  by (simp add: bench_def mq2_stuck_def)

text \<open>
  C3, as the code has it. \<^verbatim>\<open>MQRead\<close> guards the update by \<^verbatim>\<open>isnan(rs) || isinf(rs)\<close>
  only. The resistance is NaN exactly for a trimmed reading of 0 (and never infinite);
  then \<^verbatim>\<open>MQRead\<close> returns NaN and no smoothing state changes. For every other reading
  the state of the pin is updated with the resistance, also when the resistance is 0
  (the saturated reading 1023).
\<close>

theorem MQRead_updates_unless_nan:
  "(isnan (fst (MQResistanceCalculation raw st)) \<or> isinf (fst (MQResistanceCalculation raw st)))
      = (raw = 0)
   \<and> (fst (readAnalogFilteredRaw b pin st) = 0 \<longrightarrow>
        fst (MQRead b pin Ro st) = NaN
        \<and> SmoothedRS q (snd (MQRead b pin Ro st)) = SmoothedRS q st)
   \<and> (pin \<in> set sensor_pins \<and> fst (readAnalogFilteredRaw b pin st) = raw \<and> raw \<noteq> 0 \<longrightarrow>
        SmoothedRS pin (snd (MQRead b pin Ro st))
          = ema_update (SmoothedRS pin st) (Fin (10 * (1023 - of_int raw) / of_int raw)))"
proof (intro conjI impI)
  show "(isnan (fst (MQResistanceCalculation raw st))
      \<or> isinf (fst (MQResistanceCalculation raw st))) = (raw = 0)"
    by (cases "raw = 0") (simp_all add: MQResistanceCalculation_zero MQResistanceCalculation_nonzero)
next
  assume z: "fst (readAnalogFilteredRaw b pin st) = 0"
  show "fst (MQRead b pin Ro st) = NaN" by (rule MQRead_invalid(1) [OF z])
  show "SmoothedRS q (snd (MQRead b pin Ro st)) = SmoothedRS q st"
    by (rule MQRead_invalid(2) [OF z])
next
  assume "pin \<in> set sensor_pins \<and> fst (readAnalogFilteredRaw b pin st) = raw \<and> raw \<noteq> 0"
  then show "SmoothedRS pin (snd (MQRead b pin Ro st))
      = ema_update (SmoothedRS pin st) (Fin (10 * (1023 - of_int raw) / of_int raw))"
    by (simp add: MQRead_smoothed(2))
qed

theorem MQRead_updates_unless_nan_witness:
  "fst (readAnalogFilteredRaw (bench mq2_stuck) MQ2_PIN power_on) = 0
   \<and> fst (MQRead (bench mq2_stuck) MQ2_PIN (Fin 10) power_on) = NaN
   \<and> SmoothedRS MQ2_PIN (snd (MQRead (bench mq2_stuck) MQ2_PIN (Fin 10) power_on))
       = SmoothedRS MQ2_PIN power_on
   \<and> MQ2_PIN \<in> set sensor_pins
   \<and> fst (readAnalogFilteredRaw (bench saturating) MQ2_PIN
        (power_on\<lparr>SmoothedRS_MQ2 := Fin 100, tick := 5\<rparr>)) = 1023
   \<and> SmoothedRS MQ2_PIN (snd (MQRead (bench saturating) MQ2_PIN (Fin 10)
        (power_on\<lparr>SmoothedRS_MQ2 := Fin 100, tick := 5\<rparr>))) = Fin 75"
  using MQRead_updates_unless_nan [where b = "bench mq2_stuck" and pin = MQ2_PIN
        and st = power_on and Ro = "Fin 10" and q = MQ2_PIN and raw = 0]
    MQRead_updates_unless_nan [where b = "bench saturating" and pin = MQ2_PIN
        and st = "power_on\<lparr>SmoothedRS_MQ2 := Fin 100, tick := 5\<rparr>" and Ro = "Fin 10"
        and q = MQ2_PIN and raw = 1023]
    mq2_stuck_read [of power_on] saturating_second MQ2_sensor_pin
  by (simp add: SmoothedRS_def ema_update_def EMA_ALPHA_def fsub_def)

text \<open>
  The saturated input after one good reading: the resistance is 0, which is not
  positive, and the smoothed state moves from 100 to 75.
\<close>

theorem MQRead_saturated_counterexample:
  "SmoothedRS_MQ2 (snd (MQRead (bench saturating) MQ2_PIN (Fin 10) power_on)) = Fin 100
   \<and> fst (readAnalogFilteredRaw (bench saturating) MQ2_PIN
        (snd (MQRead (bench saturating) MQ2_PIN (Fin 10) power_on))) = 1023
   \<and> fst (MQResistanceCalculation 1023 power_on) = Fin 0
   \<and> SmoothedRS_MQ2 (snd (MQRead (bench saturating) MQ2_PIN (Fin 10)
        (snd (MQRead (bench saturating) MQ2_PIN (Fin 10) power_on)))) = Fin 75"
proof -
  have "MQRead (bench saturating) MQ2_PIN (Fin 10)
          (power_on\<lparr>SmoothedRS_MQ2 := Fin 100, tick := 5\<rparr>)
        = (Fin 75, power_on\<lparr>SmoothedRS_MQ2 := Fin 75, tick := 30\<rparr>)"
    unfolding MQRead_def saturating_second
    by (simp add: MQResistanceCalculation_nonzero Let_def ema_update_def EMA_ALPHA_def
        fsub_def power_on_def)
  then show ?thesis
    by (simp add: saturating_MQRead_first saturating_second MQResistanceCalculation_nonzero)
qed

subsection \<open>Two-point curve fit\<close>

lemma computeTwoPointCurve_reject:
  assumes "0 < r1" and "0 < r2" and "\<bar>ln r2 - ln r1\<bar> < 1 / 10 ^ 6"
  shows "computeTwoPointCurve ppm1 (Fin r1) ppm2 (Fin r2) st
     = ((NaN, NaN, NaN),
        Serial_println (Str ''Error: Rs/Ro points identical (can't fit curve)'') st)"
  using assms by (simp add: computeTwoPointCurve_def Let_def)

lemma computeTwoPointCurve_accept:
  assumes "0 < ppm1" and "0 < ppm2" and "0 < r1" and "0 < r2"
    and "\<not> \<bar>ln r2 - ln r1\<bar> < 1 / 10 ^ 6" and "ppm1 \<noteq> ppm2"
  shows "computeTwoPointCurve (Fin ppm1) (Fin r1) (Fin ppm2) (Fin r2) st
     = ((Fin (log 10 ppm1 - ln r1 / (1 / ((log 10 ppm2 - log 10 ppm1) / (ln r2 - ln r1)))),
         Fin 0,
         Fin (1 / ((log 10 ppm2 - log 10 ppm1) / (ln r2 - ln r1)))), st)"
proof -
  have dx: "ln r2 - ln r1 \<noteq> 0" using assms(5) by auto
  have "ln ppm2 \<noteq> ln ppm1" using assms(1,2,6) by (simp add: ln_inj_iff)
  then have dy: "log 10 ppm2 - log 10 ppm1 \<noteq> 0" by (simp add: log_def)
  show ?thesis
    using assms(1-5) dx dy by (simp add: computeTwoPointCurve_def Let_def)
qed

lemma computeTwoPointCurve_flat:
  assumes "0 < ppm" and "0 < r1" and "0 < r2" and "\<not> \<bar>ln r2 - ln r1\<bar> < 1 / 10 ^ 6"
  shows "computeTwoPointCurve (Fin ppm) (Fin r1) (Fin ppm) (Fin r2) st
     = ((Fin (log 10 ppm), Fin 0, if r1 < r2 then PInf else NInf), st)"
proof -
  have dx: "ln r2 - ln r1 \<noteq> 0" using assms(4) by auto
  have m: "fdiv (Fin 0) (Fin (ln r2 - ln r1)) = signed_zero (r2 < r1)"
    using assms(2,3) dx by (simp add: fdiv_Fin)
  have p2: "fdiv (Fin 1) (signed_zero (r2 < r1)) = signed_inf (r2 < r1)"
    by simp
  have "r2 \<noteq> r1" using dx by auto
  then have inf: "signed_inf (r2 < r1) = (if r1 < r2 then PInf else NInf)"
    by (auto simp: signed_inf_def)
  show ?thesis
    using assms(1-4) by (simp add: computeTwoPointCurve_def Let_def m p2 inf)
qed

lemma log10_100: "log 10 (100::real) = 2"
proof -
  have "log 10 (10 powr 2) = (2::real)" by (rule log_powr_cancel) simp_all
  then show ?thesis by simp
qed

lemma computeTwoPointCurve_example:
  "computeTwoPointCurve (Fin 10) (Fin (exp 1)) (Fin 100) (Fin (exp 2)) st
     = ((Fin 0, Fin 0, Fin 1), st)"
  using computeTwoPointCurve_accept [of 10 100 "exp 1" "exp 2" st]
  by (simp add: log10_100)

lemma MQGetGasPercentage_example:
  "MQGetGasPercentage (Fin (exp 1.5)) (Fin 0, Fin 0, Fin 1) = Fin (10 powr 1.5)"
  by (simp add: MQGetGasPercentage_def fsub_def)

text \<open>
  C6. For two reference points with positive concentrations and ratios,
  \<open>x = ln ratio\<close> and \<open>y = log10 ppm\<close>, \<^verbatim>\<open>computeTwoPointCurve\<close> rejects (prints the
  error and returns three NaNs) exactly when \<open>|x2 - x1| < 1e-6\<close> (this test decides
  the rejection for any four arguments). Otherwise, with
  \<open>m = (y2 - y1) / (x2 - x1)\<close>, it returns \<open>p2 = 1 / m\<close>, \<open>p1 = 0\<close> and
  \<open>p0 = y1 - x1 / p2\<close>; for equal concentrations \<open>m\<close> is a zero with the sign of
  \<open>x2 - x1\<close>, so that \<open>p2\<close> is +infinity for \<open>ratio1 < ratio2\<close> and -infinity for
  \<open>ratio2 < ratio1\<close>, and \<open>p0 = y1\<close>. The points \<open>(10, exp 1)\<close> and \<open>(100, exp 2)\<close> give the curve (0, 0, 1),
  and the estimator with that curve maps the ratio \<open>exp 1.5\<close> to \<open>10 powr 1.5\<close>.
\<close>

theorem computeTwoPointCurve_two_point_fit:
  "(0 < ppm1 \<and> 0 < ppm2 \<and> 0 < r1 \<and> 0 < r2 \<longrightarrow>
      ((fst (computeTwoPointCurve (Fin ppm1) (Fin r1) (Fin ppm2) (Fin r2) st) = (NaN, NaN, NaN))
         = (\<bar>ln r2 - ln r1\<bar> < 1 / 10 ^ 6))
    \<and> (\<bar>ln r2 - ln r1\<bar> < 1 / 10 ^ 6 \<longrightarrow>
         computeTwoPointCurve (Fin ppm1) (Fin r1) (Fin ppm2) (Fin r2) st
           = ((NaN, NaN, NaN),
              Serial_println (Str ''Error: Rs/Ro points identical (can't fit curve)'') st))
    \<and> (\<not> \<bar>ln r2 - ln r1\<bar> < 1 / 10 ^ 6 \<and> ppm1 \<noteq> ppm2 \<longrightarrow>
         computeTwoPointCurve (Fin ppm1) (Fin r1) (Fin ppm2) (Fin r2) st
           = ((Fin (log 10 ppm1
                    - ln r1 / (1 / ((log 10 ppm2 - log 10 ppm1) / (ln r2 - ln r1)))),
               Fin 0,
               Fin (1 / ((log 10 ppm2 - log 10 ppm1) / (ln r2 - ln r1)))), st))
    \<and> (\<not> \<bar>ln r2 - ln r1\<bar> < 1 / 10 ^ 6 \<and> ppm1 = ppm2 \<longrightarrow>
         computeTwoPointCurve (Fin ppm1) (Fin r1) (Fin ppm2) (Fin r2) st
           = ((Fin (log 10 ppm1), Fin 0, if r1 < r2 then PInf else NInf), st)))
   \<and> ((fst (computeTwoPointCurve c1 q1 c2 q2 st) = (NaN, NaN, NaN))
        = flt (fabs (fsub (flog q2) (flog q1))) (Fin (1 / 10 ^ 6)))
   \<and> computeTwoPointCurve (Fin 10) (Fin (exp 1)) (Fin 100) (Fin (exp 2)) st
       = ((Fin 0, Fin 0, Fin 1), st)
   \<and> MQGetGasPercentage (Fin (exp 1.5)) (Fin 0, Fin 0, Fin 1) = Fin (10 powr 1.5)"
proof (intro conjI impI)
  assume pos: "0 < ppm1 \<and> 0 < ppm2 \<and> 0 < r1 \<and> 0 < r2"
  show "(fst (computeTwoPointCurve (Fin ppm1) (Fin r1) (Fin ppm2) (Fin r2) st) = (NaN, NaN, NaN))
         = (\<bar>ln r2 - ln r1\<bar> < 1 / 10 ^ 6)"
  proof (cases "\<bar>ln r2 - ln r1\<bar> < 1 / 10 ^ 6")
    case True
    then show ?thesis using pos by (simp add: computeTwoPointCurve_reject)
  next
    case False
    then show ?thesis
      using pos computeTwoPointCurve_accept [of ppm1 ppm2 r1 r2 st]
        computeTwoPointCurve_flat [of ppm1 r1 r2 st]
      by (cases "ppm1 = ppm2") auto
  qed
  {
    assume "\<bar>ln r2 - ln r1\<bar> < 1 / 10 ^ 6"
    then show "computeTwoPointCurve (Fin ppm1) (Fin r1) (Fin ppm2) (Fin r2) st
           = ((NaN, NaN, NaN),
              Serial_println (Str ''Error: Rs/Ro points identical (can't fit curve)'') st)"
      using pos by (simp add: computeTwoPointCurve_reject)
  }
  {
    assume "\<not> \<bar>ln r2 - ln r1\<bar> < 1 / 10 ^ 6 \<and> ppm1 \<noteq> ppm2"
    then show "computeTwoPointCurve (Fin ppm1) (Fin r1) (Fin ppm2) (Fin r2) st
           = ((Fin (log 10 ppm1
                    - ln r1 / (1 / ((log 10 ppm2 - log 10 ppm1) / (ln r2 - ln r1)))),
               Fin 0,
               Fin (1 / ((log 10 ppm2 - log 10 ppm1) / (ln r2 - ln r1)))), st)"
      using pos by (intro computeTwoPointCurve_accept) auto
  }
  {
    assume "\<not> \<bar>ln r2 - ln r1\<bar> < 1 / 10 ^ 6 \<and> ppm1 = ppm2"
    then show "computeTwoPointCurve (Fin ppm1) (Fin r1) (Fin ppm2) (Fin r2) st
           = ((Fin (log 10 ppm1), Fin 0, if r1 < r2 then PInf else NInf), st)"
      using pos computeTwoPointCurve_flat [of ppm1 r1 r2 st] by simp
  }
next
  show "(fst (computeTwoPointCurve c1 q1 c2 q2 st) = (NaN, NaN, NaN))
        = flt (fabs (fsub (flog q2) (flog q1))) (Fin (1 / 10 ^ 6))"
    by (simp add: computeTwoPointCurve_def Let_def)
next
  show "computeTwoPointCurve (Fin 10) (Fin (exp 1)) (Fin 100) (Fin (exp 2)) st
       = ((Fin 0, Fin 0, Fin 1), st)"
    by (rule computeTwoPointCurve_example)
  show "MQGetGasPercentage (Fin (exp 1.5)) (Fin 0, Fin 0, Fin 1) = Fin (10 powr 1.5)"
    by (rule MQGetGasPercentage_example)
qed

theorem computeTwoPointCurve_two_point_fit_witness:
  "(0::real) < 10 \<and> (0::real) < 100 \<and> (0::real) < exp 1 \<and> (0::real) < exp 2
   \<and> \<not> \<bar>ln (exp 2) - ln (exp (1::real))\<bar> < 1 / 10 ^ 6
   \<and> computeTwoPointCurve (Fin 10) (Fin (exp 1)) (Fin 100) (Fin (exp 2)) power_on
       = ((Fin (log 10 10 - ln (exp 1) / (1 / ((log 10 100 - log 10 10) / (ln (exp 2) - ln (exp 1))))),
           Fin 0,
           Fin (1 / ((log 10 100 - log 10 10) / (ln (exp 2) - ln (exp 1))))), power_on)
   \<and> \<bar>ln 2 - ln (2::real)\<bar> < 1 / 10 ^ 6
   \<and> computeTwoPointCurve (Fin 10) (Fin 2) (Fin 100) (Fin 2) power_on
       = ((NaN, NaN, NaN),
          Serial_println (Str ''Error: Rs/Ro points identical (can't fit curve)'') power_on)
   \<and> computeTwoPointCurve (Fin 10) (Fin (exp 1)) (Fin 10) (Fin (exp 2)) power_on
       = ((Fin 1, Fin 0, PInf), power_on)
   \<and> computeTwoPointCurve (Fin 10) (Fin (exp 2)) (Fin 10) (Fin (exp 1)) power_on
       = ((Fin 1, Fin 0, NInf), power_on)"
  using computeTwoPointCurve_two_point_fit
      [where ?ppm1.0 = 10 and ?ppm2.0 = 100 and ?r1.0 = "exp 1" and ?r2.0 = "exp 2"
        and st = power_on]
    computeTwoPointCurve_two_point_fit
      [where ?ppm1.0 = 10 and ?ppm2.0 = 100 and ?r1.0 = 2 and ?r2.0 = 2 and st = power_on]
    computeTwoPointCurve_two_point_fit
      [where ?ppm1.0 = 10 and ?ppm2.0 = 10 and ?r1.0 = "exp 1" and ?r2.0 = "exp 2"
        and st = power_on]
    computeTwoPointCurve_two_point_fit
      [where ?ppm1.0 = 10 and ?ppm2.0 = 10 and ?r1.0 = "exp 2" and ?r2.0 = "exp 1"
        and st = power_on]
  by simp

subsection \<open>The measurement cycle\<close>

lemma MQGetGasPercentage_NaN [simp]: "MQGetGasPercentage NaN pcurve = NaN"
  by (simp add: MQGetGasPercentage_def fsub_def split: prod.splits)

lemma estimate_zero:
  assumes "readAnalogFilteredRaw b pin st = (0, st1)"
  shows "estimate b pin Ro pcurve st
     = (NaN, Serial_println (Str ''Error: Invalid ADC value (0)'') st1)"
  by (simp add: estimate_def MQRead_zero [OF assms])

lemma MQRead_by_pin:
  assumes "raw \<noteq> 0"
  shows "readAnalogFilteredRaw b MQ2_PIN st = (raw, st1) \<Longrightarrow> MQRead b MQ2_PIN Ro st
      = (ema_update (SmoothedRS_MQ2 st1) (Fin (10 * (1023 - of_int raw) / of_int raw)),
         st1\<lparr>SmoothedRS_MQ2 :=
           ema_update (SmoothedRS_MQ2 st1) (Fin (10 * (1023 - of_int raw) / of_int raw))\<rparr>)"
    and "readAnalogFilteredRaw b MQ7_PIN st = (raw, st1) \<Longrightarrow> MQRead b MQ7_PIN Ro st
      = (ema_update (SmoothedRS_MQ7 st1) (Fin (10 * (1023 - of_int raw) / of_int raw)),
         st1\<lparr>SmoothedRS_MQ7 :=
           ema_update (SmoothedRS_MQ7 st1) (Fin (10 * (1023 - of_int raw) / of_int raw))\<rparr>)"
    and "readAnalogFilteredRaw b MQ4_PIN st = (raw, st1) \<Longrightarrow> MQRead b MQ4_PIN Ro st
      = (ema_update (SmoothedRS_MQ4 st1) (Fin (10 * (1023 - of_int raw) / of_int raw)),
         st1\<lparr>SmoothedRS_MQ4 :=
           ema_update (SmoothedRS_MQ4 st1) (Fin (10 * (1023 - of_int raw) / of_int raw))\<rparr>)"
    and "readAnalogFilteredRaw b MQ9_PIN st = (raw, st1) \<Longrightarrow> MQRead b MQ9_PIN Ro st
      = (ema_update (SmoothedRS_MQ9 st1) (Fin (10 * (1023 - of_int raw) / of_int raw)),
         st1\<lparr>SmoothedRS_MQ9 :=
           ema_update (SmoothedRS_MQ9 st1) (Fin (10 * (1023 - of_int raw) / of_int raw))\<rparr>)"
    and "readAnalogFilteredRaw b MQ135_PIN st = (raw, st1) \<Longrightarrow> MQRead b MQ135_PIN Ro st
      = (ema_update (SmoothedRS_MQ135 st1) (Fin (10 * (1023 - of_int raw) / of_int raw)),
         st1\<lparr>SmoothedRS_MQ135 :=
           ema_update (SmoothedRS_MQ135 st1) (Fin (10 * (1023 - of_int raw) / of_int raw))\<rparr>)"
    and "readAnalogFilteredRaw b MQ8_PIN st = (raw, st1) \<Longrightarrow> MQRead b MQ8_PIN Ro st
      = (ema_update (SmoothedRS_MQ8 st1) (Fin (10 * (1023 - of_int raw) / of_int raw)),
         st1\<lparr>SmoothedRS_MQ8 :=
           ema_update (SmoothedRS_MQ8 st1) (Fin (10 * (1023 - of_int raw) / of_int raw))\<rparr>)"
  using assms
  by (simp_all add: MQRead_def MQResistanceCalculation_nonzero Let_def pin_defs)

lemma pins_not_MQ2:
  "MQ7_PIN \<noteq> MQ2_PIN" "MQ4_PIN \<noteq> MQ2_PIN" "MQ9_PIN \<noteq> MQ2_PIN" "MQ135_PIN \<noteq> MQ2_PIN"
  "MQ8_PIN \<noteq> MQ2_PIN"
  by (simp_all add: pin_defs)

lemma mq2_stuck_other:
  "pin \<noteq> MQ2_PIN \<Longrightarrow>
     readAnalogFilteredRaw (bench mq2_stuck) pin st = (93, st\<lparr>tick := tick st + 5\<rparr>)"
  using readAnalogFilteredRaw_steady [of st "bench mq2_stuck" pin 93]
  by (simp add: bench_def mq2_stuck_def)

lemma steady_read:
  "readAnalogFilteredRaw (bench steady) pin st = (93, st\<lparr>tick := tick st + 5\<rparr>)"
  using readAnalogFilteredRaw_steady [of st "bench steady" pin 93]
  by (simp add: bench_def steady_def)

lemmas MQRead_mq2_stuck =
  MQRead_zero [OF mq2_stuck_read]
  MQRead_by_pin(2) [OF _ mq2_stuck_other [OF pins_not_MQ2(1)], simplified]
  MQRead_by_pin(3) [OF _ mq2_stuck_other [OF pins_not_MQ2(2)], simplified]
  MQRead_by_pin(4) [OF _ mq2_stuck_other [OF pins_not_MQ2(3)], simplified]
  MQRead_by_pin(5) [OF _ mq2_stuck_other [OF pins_not_MQ2(4)], simplified]
  MQRead_by_pin(6) [OF _ mq2_stuck_other [OF pins_not_MQ2(5)], simplified]

lemmas MQRead_steady =
  MQRead_by_pin(1) [OF _ steady_read, simplified]
  MQRead_by_pin(2) [OF _ steady_read, simplified]
  MQRead_by_pin(3) [OF _ steady_read, simplified]
  MQRead_by_pin(4) [OF _ steady_read, simplified]
  MQRead_by_pin(5) [OF _ steady_read, simplified]
  MQRead_by_pin(6) [OF _ steady_read, simplified]


lemmas curve_defs = MQ2Curve_def COCurve_def SmokeCurve_def MQ7Curve_def MQ4Curve_def
  MQ9Curve_def CO2Curve_def NH3Curve_def NOxCurve_def AlcoholCurve_def BenzeneCurve_def
  MQ8Curve_def AirCurve_def

lemma bench_dht [simp]:
  "readHumidity (bench adc) n = Fin 50" "readTemperature (bench adc) n = Fin 20"
  by (simp_all add: bench_def)

lemma ema_update_100 [simp]:
  "ema_update (Fin 0) (Fin 100) = Fin 100" "ema_update (Fin 100) (Fin 100) = Fin 100"
  by (simp_all add: ema_update_def EMA_ALPHA_def fsub_def)

lemma MQGetGasPercentage_Fin:
  "0 < r \<Longrightarrow> p2 \<noteq> 0 \<Longrightarrow>
     MQGetGasPercentage (Fin r) (Fin p0, Fin p1, Fin p2) = Fin (10 powr ((ln r - p1) / p2 + p0))"
  by (simp add: MQGetGasPercentage_def)

lemma estimates_at_10:
  "\<not> isnan (MQGetGasPercentage (Fin 10) MQ2Curve)" "\<not> isnan (MQGetGasPercentage (Fin 10) COCurve)"
  "\<not> isnan (MQGetGasPercentage (Fin 10) SmokeCurve)" "\<not> isnan (MQGetGasPercentage (Fin 10) MQ7Curve)"
  "\<not> isnan (MQGetGasPercentage (Fin 10) MQ4Curve)" "\<not> isnan (MQGetGasPercentage (Fin 10) MQ9Curve)"
  "\<not> isnan (MQGetGasPercentage (Fin 10) CO2Curve)" "\<not> isnan (MQGetGasPercentage (Fin 10) NH3Curve)"
  "\<not> isnan (MQGetGasPercentage (Fin 10) NOxCurve)"
  "\<not> isnan (MQGetGasPercentage (Fin 10) AlcoholCurve)"
  "\<not> isnan (MQGetGasPercentage (Fin 10) BenzeneCurve)"
  "\<not> isnan (MQGetGasPercentage (Fin 10) MQ8Curve)" "\<not> isnan (MQGetGasPercentage (Fin 10) AirCurve)"
  by (simp_all add: curve_defs MQGetGasPercentage_Fin)

lemma measure_cycle_mq2_stuck:
  "measure_cycle (bench mq2_stuck) power_on =
     (\<lparr> LPG = NaN, CO = NaN, Smoke = NaN,
         CO_MQ7 = MQGetGasPercentage (Fin 10) MQ7Curve,
         CH4 = MQGetGasPercentage (Fin 10) MQ4Curve,
         CO_MQ9 = MQGetGasPercentage (Fin 10) MQ9Curve,
         CO2 = MQGetGasPercentage (Fin 10) CO2Curve,
         NH3 = MQGetGasPercentage (Fin 10) NH3Curve,
         NOx = MQGetGasPercentage (Fin 10) NOxCurve,
         Alcohol = MQGetGasPercentage (Fin 10) AlcoholCurve,
         Benzene = MQGetGasPercentage (Fin 10) BenzeneCurve,
         H2 = MQGetGasPercentage (Fin 10) MQ8Curve,
         Air = MQGetGasPercentage (Fin 10) AirCurve,
         Temperature = Fin 20, Humidity = Fin 50,
         SD_AQI = calculateSDAQI NaN (MQGetGasPercentage (Fin 10) MQ7Curve)
           (MQGetGasPercentage (Fin 10) MQ9Curve) (MQGetGasPercentage (Fin 10) MQ4Curve)
           (MQGetGasPercentage (Fin 10) MQ8Curve) (MQGetGasPercentage (Fin 10) CO2Curve)
           (MQGetGasPercentage (Fin 10) NOxCurve) (MQGetGasPercentage (Fin 10) AirCurve),
         SD_AQI_level = severity (calculateSDAQI NaN (MQGetGasPercentage (Fin 10) MQ7Curve)
           (MQGetGasPercentage (Fin 10) MQ9Curve) (MQGetGasPercentage (Fin 10) MQ4Curve)
           (MQGetGasPercentage (Fin 10) MQ8Curve) (MQGetGasPercentage (Fin 10) CO2Curve)
           (MQGetGasPercentage (Fin 10) NOxCurve) (MQGetGasPercentage (Fin 10) AirCurve)) \<rparr>,
      power_on\<lparr> SmoothedRS_MQ7 := Fin 100, SmoothedRS_MQ4 := Fin 100, SmoothedRS_MQ9 := Fin 100,
         SmoothedRS_MQ135 := Fin 100, SmoothedRS_MQ8 := Fin 100, tick := 125,
         serial_out := [Str ''Error: Invalid ADC value (0)'', Str ''Error: Invalid ADC value (0)'',
           Str ''Error: Invalid ADC value (0)''] \<rparr>)"
  by (simp add: measure_cycle_def estimate_def MQRead_mq2_stuck Let_def power_on_def
      Serial_println_def)

lemma measure_cycle_steady:
  "measure_cycle (bench steady) power_on =
     (\<lparr> LPG = MQGetGasPercentage (Fin 10) MQ2Curve,
         CO = MQGetGasPercentage (Fin 10) COCurve,
         Smoke = MQGetGasPercentage (Fin 10) SmokeCurve,
         CO_MQ7 = MQGetGasPercentage (Fin 10) MQ7Curve,
         CH4 = MQGetGasPercentage (Fin 10) MQ4Curve,
         CO_MQ9 = MQGetGasPercentage (Fin 10) MQ9Curve,
         CO2 = MQGetGasPercentage (Fin 10) CO2Curve,
         NH3 = MQGetGasPercentage (Fin 10) NH3Curve,
         NOx = MQGetGasPercentage (Fin 10) NOxCurve,
         Alcohol = MQGetGasPercentage (Fin 10) AlcoholCurve,
         Benzene = MQGetGasPercentage (Fin 10) BenzeneCurve,
         H2 = MQGetGasPercentage (Fin 10) MQ8Curve,
         Air = MQGetGasPercentage (Fin 10) AirCurve,
         Temperature = Fin 20, Humidity = Fin 50,
         SD_AQI = calculateSDAQI (MQGetGasPercentage (Fin 10) COCurve)
           (MQGetGasPercentage (Fin 10) MQ7Curve)
           (MQGetGasPercentage (Fin 10) MQ9Curve) (MQGetGasPercentage (Fin 10) MQ4Curve)
           (MQGetGasPercentage (Fin 10) MQ8Curve) (MQGetGasPercentage (Fin 10) CO2Curve)
           (MQGetGasPercentage (Fin 10) NOxCurve) (MQGetGasPercentage (Fin 10) AirCurve),
         SD_AQI_level = severity (calculateSDAQI (MQGetGasPercentage (Fin 10) COCurve)
           (MQGetGasPercentage (Fin 10) MQ7Curve)
           (MQGetGasPercentage (Fin 10) MQ9Curve) (MQGetGasPercentage (Fin 10) MQ4Curve)
           (MQGetGasPercentage (Fin 10) MQ8Curve) (MQGetGasPercentage (Fin 10) CO2Curve)
           (MQGetGasPercentage (Fin 10) NOxCurve) (MQGetGasPercentage (Fin 10) AirCurve)) \<rparr>,
      power_on\<lparr> SmoothedRS_MQ2 := Fin 100, SmoothedRS_MQ7 := Fin 100, SmoothedRS_MQ4 := Fin 100,
         SmoothedRS_MQ9 := Fin 100, SmoothedRS_MQ135 := Fin 100, SmoothedRS_MQ8 := Fin 100,
         tick := 65 \<rparr>)"
  by (simp add: measure_cycle_def estimate_def MQRead_steady Let_def power_on_def)

text \<open>What one estimate, and so the thirteen of a cycle, leave alone.\<close>

lemma MQRead_quiet:
  "xbee_out (snd (MQRead b pin Ro st)) = xbee_out st"
  "serial_in (snd (MQRead b pin Ro st)) = serial_in st"
  "filter is_json (serial_out (snd (MQRead b pin Ro st))) = filter is_json (serial_out st)"
  "Ro_MQ2 (snd (MQRead b pin Ro st)) = Ro_MQ2 st" "Ro_MQ7 (snd (MQRead b pin Ro st)) = Ro_MQ7 st"
  "Ro_MQ4 (snd (MQRead b pin Ro st)) = Ro_MQ4 st" "Ro_MQ9 (snd (MQRead b pin Ro st)) = Ro_MQ9 st"
  "Ro_MQ135 (snd (MQRead b pin Ro st)) = Ro_MQ135 st"
  "Ro_MQ8 (snd (MQRead b pin Ro st)) = Ro_MQ8 st"
proof -
  from readAnalogFilteredRaw_frame [of b pin st] obtain raw t where
    r: "readAnalogFilteredRaw b pin st = (raw, st\<lparr>tick := t\<rparr>)" by blast
  have m: "MQRead b pin Ro st =
     (let (rs, st2) = MQResistanceCalculation raw (st\<lparr>tick := t\<rparr>) in
      if isnan rs \<or> isinf rs then (NaN, st2)
         else if pin = MQ2_PIN then
           (let s = ema_update (SmoothedRS_MQ2 st2) rs in (s, st2\<lparr>SmoothedRS_MQ2 := s\<rparr>))
         else if pin = MQ7_PIN then
           (let s = ema_update (SmoothedRS_MQ7 st2) rs in (s, st2\<lparr>SmoothedRS_MQ7 := s\<rparr>))
         else if pin = MQ4_PIN then
           (let s = ema_update (SmoothedRS_MQ4 st2) rs in (s, st2\<lparr>SmoothedRS_MQ4 := s\<rparr>))
         else if pin = MQ9_PIN then
           (let s = ema_update (SmoothedRS_MQ9 st2) rs in (s, st2\<lparr>SmoothedRS_MQ9 := s\<rparr>))
         else if pin = MQ135_PIN then
           (let s = ema_update (SmoothedRS_MQ135 st2) rs in (s, st2\<lparr>SmoothedRS_MQ135 := s\<rparr>))
         else if pin = MQ8_PIN then
           (let s = ema_update (SmoothedRS_MQ8 st2) rs in (s, st2\<lparr>SmoothedRS_MQ8 := s\<rparr>))
         else (rs, st2))"
    by (simp add: MQRead_def r)
  show "xbee_out (snd (MQRead b pin Ro st)) = xbee_out st"
    "serial_in (snd (MQRead b pin Ro st)) = serial_in st"
    "filter is_json (serial_out (snd (MQRead b pin Ro st))) = filter is_json (serial_out st)"
    "Ro_MQ2 (snd (MQRead b pin Ro st)) = Ro_MQ2 st" "Ro_MQ7 (snd (MQRead b pin Ro st)) = Ro_MQ7 st"
    "Ro_MQ4 (snd (MQRead b pin Ro st)) = Ro_MQ4 st" "Ro_MQ9 (snd (MQRead b pin Ro st)) = Ro_MQ9 st"
    "Ro_MQ135 (snd (MQRead b pin Ro st)) = Ro_MQ135 st"
    "Ro_MQ8 (snd (MQRead b pin Ro st)) = Ro_MQ8 st"
    unfolding m
    by (cases "raw = 0";
        simp add: MQResistanceCalculation_zero MQResistanceCalculation_nonzero Let_def
          Serial_println_def)+
qed

lemma estimate_quiet [simp]:
  "xbee_out (snd (estimate b pin Ro pcurve st)) = xbee_out st"
  "serial_in (snd (estimate b pin Ro pcurve st)) = serial_in st"
  "filter is_json (serial_out (snd (estimate b pin Ro pcurve st))) = filter is_json (serial_out st)"
  "Ro_MQ2 (snd (estimate b pin Ro pcurve st)) = Ro_MQ2 st"
  "Ro_MQ7 (snd (estimate b pin Ro pcurve st)) = Ro_MQ7 st"
  "Ro_MQ4 (snd (estimate b pin Ro pcurve st)) = Ro_MQ4 st"
  "Ro_MQ9 (snd (estimate b pin Ro pcurve st)) = Ro_MQ9 st"
  "Ro_MQ135 (snd (estimate b pin Ro pcurve st)) = Ro_MQ135 st"
  "Ro_MQ8 (snd (estimate b pin Ro pcurve st)) = Ro_MQ8 st"
  by (simp_all add: estimate_def split_beta MQRead_quiet)

lemma measure_cycle_quiet:
  "xbee_out (snd (measure_cycle b st)) = xbee_out st"
  "serial_in (snd (measure_cycle b st)) = serial_in st"
  "filter is_json (serial_out (snd (measure_cycle b st))) = filter is_json (serial_out st)"
  unfolding measure_cycle_def
  by (simp_all add: Let_def split_beta)

lemma measure_cycle_table:
  "measure_cycle b st =
     (let vs = fst (run_channels b channel_table st);
          s = snd (run_channels b channel_table st);
          idx = calculateSDAQI (vs ! 1) (vs ! 3) (vs ! 5) (vs ! 4) (vs ! 11) (vs ! 6) (vs ! 8)
                  (vs ! 12)
      in (\<lparr> LPG = vs ! 0, CO = vs ! 1, Smoke = vs ! 2, CO_MQ7 = vs ! 3, CH4 = vs ! 4,
            CO_MQ9 = vs ! 5, CO2 = vs ! 6, NH3 = vs ! 7, NOx = vs ! 8, Alcohol = vs ! 9,
            Benzene = vs ! 10, H2 = vs ! 11, Air = vs ! 12,
            Temperature = readTemperature b (tick s), Humidity = readHumidity b (tick s),
            SD_AQI = idx, SD_AQI_level = severity idx \<rparr>, s))"
  by (simp add: measure_cycle_def channel_table_def Let_def split_beta)

text \<open>What a measurement prints: the resistance error, once, when the trimmed reading is 0.\<close>

lemma MQRead_serial:
  "serial_out (snd (MQRead b pin Ro st))
     = serial_out st @ (if fst (readAnalogFilteredRaw b pin st) = 0
                        then [Str ''Error: Invalid ADC value (0)''] else [])"
proof -
  from readAnalogFilteredRaw_frame [of b pin st] obtain raw t where
    r: "readAnalogFilteredRaw b pin st = (raw, st\<lparr>tick := t\<rparr>)" by blast
  show ?thesis
    by (cases "raw = 0";
        simp add: MQRead_def r MQResistanceCalculation_zero MQResistanceCalculation_nonzero
          Let_def Serial_println_def)
qed

lemma estimate_serial:
  "serial_out (snd (estimate b pin Ro pcurve st))
     = serial_out st @ (if fst (readAnalogFilteredRaw b pin st) = 0
                        then [Str ''Error: Invalid ADC value (0)''] else [])"
  by (simp add: estimate_def split_beta MQRead_serial)

lemma estimate_number_serial:
  assumes "\<not> isnan (fst (estimate b pin Ro pcurve st))"
  shows "serial_out (snd (estimate b pin Ro pcurve st)) = serial_out st"
proof -
  have "fst (readAnalogFilteredRaw b pin st) \<noteq> 0"
    using assms MQRead_invalid(1) [of b pin st Ro] by (auto simp: estimate_def split_beta)
  then show ?thesis by (simp add: estimate_serial)
qed

lemma run_channels_serial:
  "\<exists>k\<le>length tab. serial_out (snd (run_channels b tab st))
     = serial_out st @ replicate k (Str ''Error: Invalid ADC value (0)'')"
proof (induction tab arbitrary: st)
  case Nil
  then show ?case by simp
next
  case (Cons row tab)
  obtain pin Ro_of pcurve where row: "row = (pin, Ro_of, pcurve)" by (cases row)
  let ?s1 = "snd (estimate b pin (Ro_of st) pcurve st)"
  from Cons.IH [of ?s1] obtain k where k: "k \<le> length tab"
    "serial_out (snd (run_channels b tab ?s1))
       = serial_out ?s1 @ replicate k (Str ''Error: Invalid ADC value (0)'')" by blast
  show ?case
  proof (cases "fst (readAnalogFilteredRaw b pin st) = 0")
    case True
    have "serial_out (snd (run_channels b (row # tab) st))
       = serial_out st @ replicate (Suc k) (Str ''Error: Invalid ADC value (0)'')"
      using True k(2) by (simp add: row split_beta estimate_serial)
    with k(1) show ?thesis by (intro exI [of _ "Suc k"]) simp
  next
    case False
    have "serial_out (snd (run_channels b (row # tab) st))
       = serial_out st @ replicate k (Str ''Error: Invalid ADC value (0)'')"
      using False k(2) by (simp add: row split_beta estimate_serial)
    with k(1) show ?thesis by (intro exI [of _ k]) simp
  qed
qed

lemma measure_cycle_serial:
  "\<exists>k\<le>13. serial_out (snd (measure_cycle b st))
     = serial_out st @ replicate k (Str ''Error: Invalid ADC value (0)'')"
proof -
  have len: "length channel_table = 13" by (simp add: channel_table_def)
  have "snd (measure_cycle b st) = snd (run_channels b channel_table st)"
    by (simp add: measure_cycle_table Let_def)
  with run_channels_serial [of channel_table b st] show ?thesis
    by (simp only: len)
qed

lemma measure_cycle_valid_serial:
  assumes "all_valid (fst (measure_cycle b st))"
  shows "serial_out (snd (measure_cycle b st)) = serial_out st"
  using assms unfolding measure_cycle_def all_valid_def
  by (simp add: Let_def split_beta estimate_number_serial)

lemma measure_cycle_LPG:
  "LPG (fst (measure_cycle b st)) = fst (estimate b MQ2_PIN (Ro_MQ2 st) MQ2Curve st)"
  unfolding measure_cycle_def
  by (simp only: Let_def split_beta fst_conv snd_conv snapshot.simps)

lemma power_on_ports [simp]:
  "serial_in power_on = []" "serial_out power_on = []" "xbee_out power_on = []"
  by (simp_all add: power_on_def)

lemma loop_body_valid:
  assumes "all_valid (fst (measure_cycle b st))"
  shows "loop_body b st = XBee_println (Json (fst (measure_cycle b st)))
           (Serial_println (Json (fst (measure_cycle b st))) (snd (measure_cycle b st)))"
  using assms by (simp add: loop_body_def split_beta)

lemma loop_body_invalid:
  assumes "\<not> all_valid (fst (measure_cycle b st))"
  shows "loop_body b st = Serial_println (Str ''Error: Invalid or missing sensor readings.'')
           (snd (measure_cycle b st))"
  using assms by (simp add: loop_body_def split_beta)

lemma estimate_NaN:
  assumes "fst (readAnalogFilteredRaw b pin s) = 0"
  shows "isnan (fst (estimate b pin Ro pcurve s))"
  by (simp add: estimate_def split_beta MQRead_invalid(1) [OF assms])

lemma handleSerialCalibration_idle:
  "serial_in st = [] \<Longrightarrow> handleSerialCalibration b st = Some st"
  by (simp add: handleSerialCalibration_def)

text \<open>
  C1, as the code has it. A cycle emits the JSON snapshot (on both ports) exactly when
  all thirteen estimates, the humidity and the temperature are numbers; the snapshot is
  then all that the cycle prints. A trimmed reading of 0 makes the estimate of its channel
  NaN, and one NaN suppresses the whole snapshot: nothing goes to XBee and no JSON line to
  Serial, so no estimate of the other channels, no index and no label is emitted. What
  such a cycle prints on Serial is the line "Error: Invalid ADC value (0)" of each
  estimate whose trimmed reading was 0 (at most thirteen of them, every estimate printing
  that line exactly when its reading is 0), followed by the line
  "Error: Invalid or missing sensor readings.". The cycle itself always completes:
  \<^verbatim>\<open>loop\<close> returns whenever the calibration check before it returns, in particular when no
  serial input is pending.
\<close>

theorem loop_body_snapshot_or_error:
  "(all_valid (fst (measure_cycle b st)) \<longrightarrow>
       serial_out (loop_body b st)
         = serial_out (snd (measure_cycle b st)) @ [Json (fst (measure_cycle b st))]
     \<and> serial_out (loop_body b st) = serial_out st @ [Json (fst (measure_cycle b st))]
     \<and> xbee_out (loop_body b st) = xbee_out st @ [Json (fst (measure_cycle b st))])
   \<and> (\<not> all_valid (fst (measure_cycle b st)) \<longrightarrow>
       serial_out (loop_body b st)
         = serial_out (snd (measure_cycle b st))
           @ [Str ''Error: Invalid or missing sensor readings.'']
     \<and> (\<exists>k\<le>13. serial_out (loop_body b st)
           = serial_out st @ replicate k (Str ''Error: Invalid ADC value (0)'')
             @ [Str ''Error: Invalid or missing sensor readings.''])
     \<and> xbee_out (loop_body b st) = xbee_out st
     \<and> filter is_json (serial_out (loop_body b st)) = filter is_json (serial_out st))
   \<and> serial_out (snd (estimate b pin Ro pcurve s))
       = serial_out s @ (if fst (readAnalogFilteredRaw b pin s) = 0
                         then [Str ''Error: Invalid ADC value (0)''] else [])
   \<and> (fst (readAnalogFilteredRaw b pin s) = 0 \<longrightarrow> isnan (fst (estimate b pin Ro pcurve s)))
   \<and> (fst (readAnalogFilteredRaw b MQ2_PIN st) = 0 \<longrightarrow> \<not> all_valid (fst (measure_cycle b st)))
   \<and> (handleSerialCalibration b st0 = Some st \<longrightarrow> loop b st0 = Some (loop_body b st))
   \<and> (serial_in st = [] \<longrightarrow> loop b st = Some (loop_body b st))"
proof (intro conjI impI)
  assume v: "all_valid (fst (measure_cycle b st))"
  show "serial_out (loop_body b st)
         = serial_out (snd (measure_cycle b st)) @ [Json (fst (measure_cycle b st))]"
    by (simp add: loop_body_valid [OF v] XBee_println_def Serial_println_def)
  show "serial_out (loop_body b st) = serial_out st @ [Json (fst (measure_cycle b st))]"
    by (simp add: loop_body_valid [OF v] XBee_println_def Serial_println_def
        measure_cycle_valid_serial [OF v])
  show "xbee_out (loop_body b st) = xbee_out st @ [Json (fst (measure_cycle b st))]"
    by (simp add: loop_body_valid [OF v] XBee_println_def Serial_println_def
        measure_cycle_quiet)
next
  assume n: "\<not> all_valid (fst (measure_cycle b st))"
  show "serial_out (loop_body b st)
         = serial_out (snd (measure_cycle b st))
           @ [Str ''Error: Invalid or missing sensor readings.'']"
    by (simp add: loop_body_invalid [OF n] Serial_println_def)
  show "\<exists>k\<le>13. serial_out (loop_body b st)
           = serial_out st @ replicate k (Str ''Error: Invalid ADC value (0)'')
             @ [Str ''Error: Invalid or missing sensor readings.'']"
    using measure_cycle_serial [of b st]
    by (auto simp: loop_body_invalid [OF n] Serial_println_def)
  show "xbee_out (loop_body b st) = xbee_out st"
    by (simp add: loop_body_invalid [OF n] Serial_println_def measure_cycle_quiet)
  show "filter is_json (serial_out (loop_body b st)) = filter is_json (serial_out st)"
    by (simp add: loop_body_invalid [OF n] Serial_println_def measure_cycle_quiet)
next
  show "serial_out (snd (estimate b pin Ro pcurve s))
       = serial_out s @ (if fst (readAnalogFilteredRaw b pin s) = 0
                         then [Str ''Error: Invalid ADC value (0)''] else [])"
    by (rule estimate_serial)
next
  assume "fst (readAnalogFilteredRaw b pin s) = 0"
  then show "isnan (fst (estimate b pin Ro pcurve s))" by (rule estimate_NaN)
next
  assume "fst (readAnalogFilteredRaw b MQ2_PIN st) = 0"
  then have "isnan (LPG (fst (measure_cycle b st)))"
    by (simp add: measure_cycle_LPG estimate_NaN)
  then show "\<not> all_valid (fst (measure_cycle b st))" by (simp add: all_valid_def)
next
  assume "handleSerialCalibration b st0 = Some st"
  then show "loop b st0 = Some (loop_body b st)" by (simp add: loop_def)
next
  assume "serial_in st = []"
  then show "loop b st = Some (loop_body b st)"
    by (simp add: loop_def handleSerialCalibration_idle)
qed

lemma all_valid_steady: "all_valid (fst (measure_cycle (bench steady) power_on))"
  by (simp add: measure_cycle_steady all_valid_def estimates_at_10)

theorem loop_body_snapshot_or_error_witness:
  "all_valid (fst (measure_cycle (bench steady) power_on))
   \<and> serial_out (loop_body (bench steady) power_on)
       = [Json (fst (measure_cycle (bench steady) power_on))]
   \<and> xbee_out (loop_body (bench steady) power_on)
       = [Json (fst (measure_cycle (bench steady) power_on))]
   \<and> fst (readAnalogFilteredRaw (bench mq2_stuck) MQ2_PIN power_on) = 0
   \<and> isnan (fst (estimate (bench mq2_stuck) MQ2_PIN (Fin 10) MQ2Curve power_on))
   \<and> \<not> all_valid (fst (measure_cycle (bench mq2_stuck) power_on))
   \<and> xbee_out (loop_body (bench mq2_stuck) power_on) = []
   \<and> filter is_json (serial_out (loop_body (bench mq2_stuck) power_on)) = []
   \<and> serial_in power_on = []
   \<and> handleSerialCalibration (bench mq2_stuck) power_on = Some power_on
   \<and> loop (bench mq2_stuck) power_on = Some (loop_body (bench mq2_stuck) power_on)"
proof -
  note good = loop_body_snapshot_or_error [where b = "bench steady" and st = power_on
        and ?st0.0 = power_on and pin = MQ2_PIN and s = power_on and Ro = "Fin 10"
        and pcurve = MQ2Curve]
  note bad = loop_body_snapshot_or_error [where b = "bench mq2_stuck" and st = power_on
        and ?st0.0 = power_on and pin = MQ2_PIN and s = power_on and Ro = "Fin 10"
        and pcurve = MQ2Curve]
  have v: "all_valid (fst (measure_cycle (bench steady) power_on))"
    by (rule all_valid_steady)
  with good have g:
    "serial_out (loop_body (bench steady) power_on)
       = serial_out (snd (measure_cycle (bench steady) power_on))
         @ [Json (fst (measure_cycle (bench steady) power_on))]"
    "xbee_out (loop_body (bench steady) power_on)
       = xbee_out power_on @ [Json (fst (measure_cycle (bench steady) power_on))]"
    by blast+
  have "serial_out (snd (measure_cycle (bench steady) power_on)) = []"
    by (simp add: measure_cycle_steady)
  with g have g': "serial_out (loop_body (bench steady) power_on)
       = [Json (fst (measure_cycle (bench steady) power_on))]"
    "xbee_out (loop_body (bench steady) power_on)
       = [Json (fst (measure_cycle (bench steady) power_on))]"
    by simp_all
  have z: "fst (readAnalogFilteredRaw (bench mq2_stuck) MQ2_PIN power_on) = 0"
    by (simp add: mq2_stuck_read)
  with bad have n: "isnan (fst (estimate (bench mq2_stuck) MQ2_PIN (Fin 10) MQ2Curve power_on))"
    "\<not> all_valid (fst (measure_cycle (bench mq2_stuck) power_on))"
    by blast+
  with bad have e: "xbee_out (loop_body (bench mq2_stuck) power_on) = xbee_out power_on"
    "filter is_json (serial_out (loop_body (bench mq2_stuck) power_on))
       = filter is_json (serial_out power_on)"
    by blast+
  have i: "serial_in power_on = []" by simp
  with bad have l: "loop (bench mq2_stuck) power_on = Some (loop_body (bench mq2_stuck) power_on)"
    by blast
  have h: "handleSerialCalibration (bench mq2_stuck) power_on = Some power_on"
    by (simp add: handleSerialCalibration_idle)
  from v g' z n e i l h show ?thesis by simp
qed

text \<open>
  The MQ-2 input stuck at 0 and every other input good: the MQ-2 estimates are NaN, the
  ten estimates of the other sensors, the humidity and the temperature are numbers, and
  the cycle emits the three resistance errors and the error line, no snapshot.
\<close>

theorem loop_one_channel_fails_counterexample:
  "isnan (LPG (fst (measure_cycle (bench mq2_stuck) power_on)))
   \<and> \<not> isnan (CO_MQ7 (fst (measure_cycle (bench mq2_stuck) power_on)))
   \<and> \<not> isnan (CH4 (fst (measure_cycle (bench mq2_stuck) power_on)))
   \<and> \<not> isnan (CO_MQ9 (fst (measure_cycle (bench mq2_stuck) power_on)))
   \<and> \<not> isnan (CO2 (fst (measure_cycle (bench mq2_stuck) power_on)))
   \<and> \<not> isnan (NH3 (fst (measure_cycle (bench mq2_stuck) power_on)))
   \<and> \<not> isnan (NOx (fst (measure_cycle (bench mq2_stuck) power_on)))
   \<and> \<not> isnan (Alcohol (fst (measure_cycle (bench mq2_stuck) power_on)))
   \<and> \<not> isnan (Benzene (fst (measure_cycle (bench mq2_stuck) power_on)))
   \<and> \<not> isnan (H2 (fst (measure_cycle (bench mq2_stuck) power_on)))
   \<and> \<not> isnan (Air (fst (measure_cycle (bench mq2_stuck) power_on)))
   \<and> \<not> isnan (Humidity (fst (measure_cycle (bench mq2_stuck) power_on)))
   \<and> \<not> isnan (Temperature (fst (measure_cycle (bench mq2_stuck) power_on)))
   \<and> loop (bench mq2_stuck) power_on = Some (loop_body (bench mq2_stuck) power_on)
   \<and> serial_out (loop_body (bench mq2_stuck) power_on)
       = [Str ''Error: Invalid ADC value (0)'', Str ''Error: Invalid ADC value (0)'',
          Str ''Error: Invalid ADC value (0)'',
          Str ''Error: Invalid or missing sensor readings.'']
   \<and> xbee_out (loop_body (bench mq2_stuck) power_on) = []"
proof -
  have "loop (bench mq2_stuck) power_on = Some (loop_body (bench mq2_stuck) power_on)"
    by (simp add: loop_def handleSerialCalibration_idle)
  moreover have "\<not> all_valid (fst (measure_cycle (bench mq2_stuck) power_on))"
    by (simp add: measure_cycle_mq2_stuck all_valid_def)
  then have "loop_body (bench mq2_stuck) power_on
      = Serial_println (Str ''Error: Invalid or missing sensor readings.'')
          (snd (measure_cycle (bench mq2_stuck) power_on))"
    by (rule loop_body_invalid)
  then have "serial_out (loop_body (bench mq2_stuck) power_on)
       = [Str ''Error: Invalid ADC value (0)'', Str ''Error: Invalid ADC value (0)'',
          Str ''Error: Invalid ADC value (0)'',
          Str ''Error: Invalid or missing sensor readings.'']"
    "xbee_out (loop_body (bench mq2_stuck) power_on) = []"
    by (simp_all add: measure_cycle_mq2_stuck Serial_println_def)
  ultimately show ?thesis
    by (simp add: measure_cycle_mq2_stuck estimates_at_10)
qed

subsection \<open>Calibration sessions\<close>

lemma sensors_kept_refl [simp]: "sensors_kept st st"
  by (simp add: sensors_kept_def)

lemma sensors_kept_after:
  "sensors_kept st' st'' \<Longrightarrow> sensors_kept st st'' = sensors_kept st st'"
  by (auto simp: sensors_kept_def)

lemma sensors_kept_updates [simp]:
  "sensors_kept st (st'\<lparr>tick := t\<rparr>) = sensors_kept st st'"
  "sensors_kept st (st'\<lparr>serial_in := i\<rparr>) = sensors_kept st st'"
  "sensors_kept st (st'\<lparr>serial_out := out\<rparr>) = sensors_kept st st'"
  "sensors_kept st (Serial_println m st') = sensors_kept st st'"
  by (simp_all add: sensors_kept_def Serial_println_def)

lemma sensors_kept_eq:
  "sensors_kept st st' =
     (st' = st\<lparr>tick := tick st', serial_in := serial_in st', serial_out := serial_out st'\<rparr>)"
  by (cases st, cases st') (auto simp: sensors_kept_def)

lemma readAnalogFilteredRaw_kept [simp]:
  "sensors_kept st (snd (readAnalogFilteredRaw b pin st')) = sensors_kept st st'"
proof -
  from readAnalogFilteredRaw_frame [of b pin st'] obtain raw t where
    "readAnalogFilteredRaw b pin st' = (raw, st'\<lparr>tick := t\<rparr>)" by blast
  then show ?thesis by simp
qed

lemma MQResistanceCalculation_kept [simp]:
  "sensors_kept st (snd (MQResistanceCalculation raw st')) = sensors_kept st st'"
  by (simp add: MQResistanceCalculation_def)

lemma measure_loop_kept [simp]:
  "sensors_kept st (snd (measure_loop b pin k acc st')) = sensors_kept st st'"
proof (induction k arbitrary: acc st')
  case 0
  show ?case by simp
next
  case (Suc k)
  obtain validCount sumRs where acc: "acc = (validCount, sumRs)" by (cases acc)
  show ?case
    unfolding acc
    by (simp add: split_beta Let_def Suc.IH)
qed

lemma measureRsOverRo_kept [simp]:
  "sensors_kept st (snd (measureRsOverRo b pin Ro n st')) = sensors_kept st st'"
  by (simp add: measureRsOverRo_def split_beta)

lemma Serial_readStringUntil_kept [simp]:
  "sensors_kept st (snd (Serial_readStringUntil c st')) = sensors_kept st st'"
  by (simp add: Serial_readStringUntil_def)

lemma collect_points_kept:
  "collect_points b pin Ro ppms st' = Some r \<Longrightarrow>
     sensors_kept st (case_sum (\<lambda>s. s) snd r) = sensors_kept st st'"
proof (induction ppms arbitrary: st' r)
  case Nil
  then show ?case by auto
next
  case (Cons p ppms)
  let ?st2 = "Serial_println (Str ''When ready press Enter in Serial Monitor to measure...'')
      (Serial_println (Num p) (Serial_println (Str ''Please expose sensor to ppm='') st'))"
  let ?st3 = "snd (Serial_readStringUntil (CHR 0x0A) ?st2)"
  let ?measured = "fst (measureRsOverRo b pin Ro 10 ?st3)"
  let ?st4 = "snd (measureRsOverRo b pin Ro 10 ?st3)"
  let ?st5 = "Serial_println (Num ?measured) (Serial_println (Str '' ppm: '')
      (Serial_println (Num p) (Serial_println (Str ''Measured Rs/Ro for '') ?st4)))"
  have k5: "sensors_kept st ?st5 = sensors_kept st st'" by simp
  from Cons.prems have ne: "serial_in ?st2 \<noteq> []"
    by (auto simp: Let_def split: if_splits)
  show ?case
  proof (cases "isnan ?measured \<or> fle ?measured (Fin 0)")
    case True
    with Cons.prems ne have "r = Inl (Serial_println
        (Str ''Invalid measurement detected; aborting calibration.'') ?st5)"
      by (auto simp: Let_def split_beta)
    then show ?thesis by simp
  next
    case False
    with Cons.prems ne have rest: "(case collect_points b pin Ro ppms ?st5 of
          None \<Rightarrow> None
        | Some (Inl s) \<Rightarrow> Some (Inl s)
        | Some (Inr (rsroList, s)) \<Rightarrow> Some (Inr (?measured # rsroList, s))) = Some r"
      by (auto simp: Let_def split_beta)
    then obtain r' where r': "collect_points b pin Ro ppms ?st5 = Some r'"
      by (cases "collect_points b pin Ro ppms ?st5") auto
    from Cons.IH [OF r'] k5
    have "sensors_kept st (case_sum (\<lambda>s. s) snd r') = sensors_kept st st'" by simp
    moreover have "case_sum (\<lambda>s. s) snd r = case_sum (\<lambda>s. s) snd r'"
      using rest r' by (cases r') (auto split: prod.splits)
    ultimately show ?thesis by simp
  qed
qed

lemma calibration_banner_kept [simp]:
  "sensors_kept st (calibration_banner st') = sensors_kept st st'"
  by (simp add: calibration_banner_def)

lemma print_curve_kept [simp]:
  "sensors_kept st (print_curve c st') = sensors_kept st st'"
  by (simp add: print_curve_def split_beta)

lemma sensor_pin_println [simp]: "sensor_pin sensor (Serial_println m st) = sensor_pin sensor st"
  by (simp add: sensor_pin_def Serial_println_def)

lemma calibrate_sensor_kept:
  assumes "calibrate_sensor b sensor N ppmList st' = Some st''"
  shows "sensors_kept st st'' = sensors_kept st st'"
proof (cases "sensor_pin sensor st'")
  case None
  with assms show ?thesis by (auto simp: calibrate_sensor_def)
next
  case (Some pr)
  obtain pin Ro where pr: "pr = (pin, Ro)" by (cases pr)
  show ?thesis
  proof (cases "collect_points b pin Ro ppmList st'")
    case None
    with assms Some pr show ?thesis by (simp add: calibrate_sensor_def)
  next
    case (Some r)
    note k = collect_points_kept [OF Some, of st]
    show ?thesis
    proof (cases r)
      case (Inl s)
      with assms \<open>sensor_pin sensor st' = Some pr\<close> pr Some k show ?thesis
        by (simp add: calibrate_sensor_def)
    next
      case (Inr p)
      obtain rsroList s where p: "p = (rsroList, s)" by (cases p)
      with assms \<open>sensor_pin sensor st' = Some pr\<close> pr Some Inr k show ?thesis
        by (cases "computeMultiPointCurve ppmList rsroList N")
           (auto simp: calibrate_sensor_def)
    qed
  qed
qed

lemma parse_command_kept:
  assumes "parse_command b line st' = Some st''"
  shows "sensors_kept st st'' = sensors_kept st st'"
  using assms calibrate_sensor_kept [of b _ _ _ st' st'' st]
  by (auto simp: parse_command_def Let_def split: list.splits if_splits sum.splits)

lemma handleSerialCalibration_kept:
  assumes "handleSerialCalibration b st = Some st'"
  shows "sensors_kept st st'"
proof (cases "serial_in st")
  case Nil
  with assms show ?thesis by (simp add: handleSerialCalibration_def)
next
  case (Cons cmd pending)
  let ?st1 = "calibration_banner (st\<lparr>serial_in := pending\<rparr>)"
  let ?st2 = "snd (Serial_readStringUntil (CHR 0x0A) ?st1)"
  show ?thesis
  proof (cases "cmd \<noteq> CHR ''C'' \<and> cmd \<noteq> CHR ''c''")
    case True
    with assms Cons show ?thesis by (auto simp: handleSerialCalibration_def)
  next
    case False
    with assms Cons have
      d: "(if length (trim (fst (Serial_readStringUntil (CHR 0x0A) ?st1))) = 0
           then Some (Serial_println (Str ''No input, aborting.'') ?st2)
           else parse_command b (trim (fst (Serial_readStringUntil (CHR 0x0A) ?st1))) ?st2)
          = Some st'"
      by (auto simp: handleSerialCalibration_def Let_def split_beta split: if_splits)
    have k2: "sensors_kept st ?st2" by simp
    show ?thesis
    proof (cases "length (trim (fst (Serial_readStringUntil (CHR 0x0A) ?st1))) = 0")
      case True
      with d have "st' = Serial_println (Str ''No input, aborting.'') ?st2" by simp
      then show ?thesis by simp
    next
      case False
      with d have "parse_command b (trim (fst (Serial_readStringUntil (CHR 0x0A) ?st1))) ?st2
          = Some st'" by simp
      from parse_command_kept [OF this, of st] k2 show ?thesis by simp
    qed
  qed
qed

text \<open>The sampler reads the clock and nothing else of the state.\<close>

lemma retry_loop_clock:
  "tick st1 = tick st2 \<Longrightarrow>
     fst (retry_loop b pin k val st1) = fst (retry_loop b pin k val st2)
     \<and> tick (snd (retry_loop b pin k val st1)) = tick (snd (retry_loop b pin k val st2))"
proof (induction k arbitrary: val st1 st2)
  case 0
  then show ?case by simp
next
  case (Suc k)
  have "tick (st1\<lparr>tick := Suc (tick st1)\<rparr>) = tick (st2\<lparr>tick := Suc (tick st2)\<rparr>)"
    using Suc.prems by simp
  from Suc.IH [OF this, of "analogRead b pin (tick st1)"] Suc.prems
  show ?case by (simp add: Let_def)
qed

lemma sample_loop_clock:
  "tick st1 = tick st2 \<Longrightarrow>
     fst (sample_loop b pin k st1) = fst (sample_loop b pin k st2)
     \<and> tick (snd (sample_loop b pin k st1)) = tick (snd (sample_loop b pin k st2))"
proof (induction k arbitrary: st1 st2)
  case 0
  then show ?case by simp
next
  case (Suc k)
  from retry_loop_clock [OF Suc.prems, of b pin ANALOG_READ_RETRIES 0]
  have first: "fst (analogReadWithRetries b pin st1) = fst (analogReadWithRetries b pin st2)"
    and "tick (snd (analogReadWithRetries b pin st1)) = tick (snd (analogReadWithRetries b pin st2))"
    by (simp_all add: analogReadWithRetries_def)
  from Suc.IH [OF this(2)] first show ?case by (simp add: split_beta)
qed

lemma readAnalogFilteredRaw_clock:
  assumes "tick st1 = tick st2"
  shows "fst (readAnalogFilteredRaw b pin st1) = fst (readAnalogFilteredRaw b pin st2)"
    and "tick (snd (readAnalogFilteredRaw b pin st1)) = tick (snd (readAnalogFilteredRaw b pin st2))"
  using sample_loop_clock [OF assms, of b pin READ_SAMPLE_TIMES]
  by (simp_all add: readAnalogFilteredRaw_def split_beta)

lemma MQRead_same:
  assumes "sensors_kept st1 st2" and "tick st1 = tick st2"
  shows "fst (MQRead b pin Ro st1) = fst (MQRead b pin Ro st2)"
    and "sensors_kept (snd (MQRead b pin Ro st1)) (snd (MQRead b pin Ro st2))"
    and "tick (snd (MQRead b pin Ro st1)) = tick (snd (MQRead b pin Ro st2))"
proof -
  from readAnalogFilteredRaw_frame [of b pin st1] obtain raw t where
    r1: "readAnalogFilteredRaw b pin st1 = (raw, st1\<lparr>tick := t\<rparr>)" by blast
  from readAnalogFilteredRaw_frame [of b pin st2] obtain raw2 t2 where
    r2: "readAnalogFilteredRaw b pin st2 = (raw2, st2\<lparr>tick := t2\<rparr>)" by blast
  from readAnalogFilteredRaw_clock [OF assms(2), of b pin] r1 r2
  have eq: "raw2 = raw" "t2 = t" by simp_all
  have "fst (MQRead b pin Ro st1) = fst (MQRead b pin Ro st2)
    \<and> sensors_kept (snd (MQRead b pin Ro st1)) (snd (MQRead b pin Ro st2))
    \<and> tick (snd (MQRead b pin Ro st1)) = tick (snd (MQRead b pin Ro st2))"
    using assms(1)
    by (cases "raw = 0")
       (simp_all add: MQRead_def r1 r2 eq MQResistanceCalculation_zero
          MQResistanceCalculation_nonzero Let_def sensors_kept_def Serial_println_def)
  then show "fst (MQRead b pin Ro st1) = fst (MQRead b pin Ro st2)"
    and "sensors_kept (snd (MQRead b pin Ro st1)) (snd (MQRead b pin Ro st2))"
    and "tick (snd (MQRead b pin Ro st1)) = tick (snd (MQRead b pin Ro st2))"
    by simp_all
qed

lemma estimate_same:
  assumes "sensors_kept st1 st2" and "tick st1 = tick st2"
  shows "fst (estimate b pin Ro pcurve st1) = fst (estimate b pin Ro pcurve st2)"
    and "sensors_kept (snd (estimate b pin Ro pcurve st1)) (snd (estimate b pin Ro pcurve st2))"
    and "tick (snd (estimate b pin Ro pcurve st1)) = tick (snd (estimate b pin Ro pcurve st2))"
  using MQRead_same [OF assms, of b pin Ro]
  by (simp_all add: estimate_def split_beta)

lemma channel_table_Ro:
  assumes "(pin, Ro_of, pcurve) \<in> set channel_table" and "sensors_kept st1 st2"
  shows "Ro_of st1 = Ro_of st2"
  using assms by (auto simp: channel_table_def sensors_kept_def)

lemma run_channels_same:
  assumes "set tab \<subseteq> set channel_table" and "sensors_kept st1 st2" and "tick st1 = tick st2"
  shows "fst (run_channels b tab st1) = fst (run_channels b tab st2)
     \<and> tick (snd (run_channels b tab st1)) = tick (snd (run_channels b tab st2))"
  using assms
proof (induction tab arbitrary: st1 st2)
  case Nil
  then show ?case by simp
next
  case (Cons row tab)
  obtain pin Ro_of pcurve where row: "row = (pin, Ro_of, pcurve)" by (cases row)
  have ro: "Ro_of st1 = Ro_of st2"
    using channel_table_Ro [of pin Ro_of pcurve st1 st2] Cons.prems row by simp
  note e = estimate_same [OF Cons.prems(2,3), of b pin "Ro_of st2" pcurve]
  have "set tab \<subseteq> set channel_table" using Cons.prems(1) by simp
  from Cons.IH [OF this e(2,3)] e(1)
  show ?case by (simp add: row ro split_beta)
qed

lemma measure_cycle_same:
  assumes "sensors_kept st1 st2" and "tick st1 = tick st2"
  shows "fst (measure_cycle b st1) = fst (measure_cycle b st2)"
  using run_channels_same [OF subset_refl assms, of b]
  by (simp add: measure_cycle_table Let_def)

text \<open>The session of the example: MQ-2 in 10 ppm (Rs/Ro = 32) and in 100 ppm (Rs/Ro = 2).\<close>

lemma ln2_bounds: "1 / 4 \<le> ln (2::real)" "ln (2::real) < 2"
proof -
  have "1 / 2 - (1 / 2)\<^sup>2 \<le> ln (1 + 1 / (2::real))"
    by (rule ln_one_plus_pos_lower_bound) simp_all
  also have "ln (1 + 1 / (2::real)) \<le> ln 2" by simp
  finally show "1 / 4 \<le> ln (2::real)" by (simp add: power2_eq_square)
  show "ln (2::real) < 2" by (rule ln_less_self) simp
qed

lemma ln32: "ln (32::real) = 5 * ln 2"
proof -
  have "ln ((2::real) ^ 5) = real 5 * ln 2" by (rule ln_realpow)
  then show ?thesis by simp
qed

lemma sums_example:
  "sums_loop [(Fin 10, Fin 32), (Fin 100, Fin 2)] (Fin 0, Fin 0, Fin 0, Fin 0)
     = Some (Fin (6 * ln 2), Fin 3, Fin (7 * ln 2), Fin (26 * (ln 2 * ln 2)))"
  by (simp add: ln32 log10_100 Let_def algebra_simps)

lemma fit_example:
  "computeMultiPointCurve [Fin 10, Fin 100] [Fin 32, Fin 2] 2
     = Some (Fin (3 / 2), Fin (3 * ln 2), Fin (- (4 * ln 2)))"
proof -
  define L where "L = ln (2::real)"
  have L: "1 / 4 \<le> L" "L < 2" using ln2_bounds by (simp_all add: L_def)
  then have pos: "0 < L" by simp
  have sums: "sums_loop (take (nat 2) (zip [Fin 10, Fin 100] [Fin 32, Fin 2]))
       (Fin 0, Fin 0, Fin 0, Fin 0)
     = Some (Fin (6 * L), Fin 3, Fin (7 * L), Fin (26 * (L * L)))"
    using sums_example by (simp add: L_def)
  have denom: "fsub (fmul (float_of_int 2) (Fin (26 * (L * L)))) (fmul (Fin (6 * L)) (Fin (6 * L)))
      = Fin (16 * (L * L))"
    using pos by (simp add: float_of_int_def algebra_simps)
  have "1 / 4 * (1 / 4) \<le> L * L" using L(1) by (intro mult_mono) simp_all
  then have big: "\<not> flt (fabs (Fin (16 * (L * L)))) (Fin (1 / 10 ^ 12))" by simp
  have a: "fdiv (fsub (fmul (float_of_int 2) (Fin (7 * L))) (fmul (Fin (6 * L)) (Fin 3)))
       (Fin (16 * (L * L))) = Fin (- (1 / (4 * L)))"
    using pos by (simp add: float_of_int_def field_simps)
  define c where "c = 1 / (4 * L)"
  have "1 / 8 < c" using L(2) pos by (simp add: c_def field_simps)
  moreover have "(1::real) / 10 ^ 12 < 1 / 8" by simp
  ultimately have "\<not> \<bar>- c\<bar> < 1 / 10 ^ 12" by linarith
  then have "\<not> \<bar>- (1 / (4 * L))\<bar> < 1 / 10 ^ 12" unfolding c_def .
  then have abig: "\<not> flt (fabs (Fin (- (1 / (4 * L))))) (Fin (1 / 10 ^ 12))"
    by (simp only: fabs.simps flt.simps finite_value.simps simp_thms)
  have bval: "fdiv (fsub (Fin 3) (fmul (Fin (- (1 / (4 * L)))) (Fin (6 * L)))) (float_of_int 2)
      = Fin (9 / 4)"
    using pos by (simp add: float_of_int_def field_simps)
  have p2: "fdiv (Fin 1) (Fin (- (1 / (4 * L)))) = Fin (- (4 * L))"
    using pos by (simp add: field_simps)
  have meanx: "fdiv (Fin (6 * L)) (float_of_int 2) = Fin (3 * L)"
    by (simp add: float_of_int_def)
  have p0: "fadd (Fin (9 / 4)) (fdiv (Fin (3 * L)) (Fin (- (4 * L)))) = Fin (3 / 2)"
    using pos by (simp add: field_simps)
  have "computeMultiPointCurve [Fin 10, Fin 100] [Fin 32, Fin 2] 2
     = Some (Fin (3 / 2), Fin (3 * L), Fin (- (4 * L)))"
    unfolding computeMultiPointCurve_def
    by (simp only: sums option.case prod.case Let_def denom big a abig bval p2 meanx p0 if_False)
       simp
  then show ?thesis by (simp add: L_def)
qed


lemma measure_loop_steady:
  assumes "\<forall>n. tick st \<le> n \<and> n < tick st + 5 * k \<longrightarrow> analogRead b pin n = v"
    and "0 < v" and "v < 1023"
  shows "measure_loop b pin k (c, Fin s) st
     = ((c + int k, Fin (s + real k * (10 * (1023 - of_int v) / of_int v))),
        st\<lparr>tick := tick st + 5 * k\<rparr>)"
  using assms(1)
proof (induction k arbitrary: c s st)
  case 0
  show ?case by simp
next
  case (Suc k)
  define x :: real where "x = 10 * (1023 - of_int v) / of_int v"
  let ?st = "st\<lparr>tick := tick st + 5\<rparr>"
  have "\<forall>n. tick st \<le> n \<and> n < tick st + 5 \<longrightarrow> analogRead b pin n = v"
    using Suc.prems by simp
  from readAnalogFilteredRaw_steady [OF this assms(2,3)]
  have r: "readAnalogFilteredRaw b pin st = (v, ?st)" .
  have rs: "MQResistanceCalculation v ?st = (Fin x, ?st)"
    using assms(2) by (simp add: MQResistanceCalculation_nonzero x_def)
  have "\<forall>n. tick ?st \<le> n \<and> n < tick ?st + 5 * k \<longrightarrow> analogRead b pin n = v"
    using Suc.prems by simp
  from Suc.IH [OF this, of "c + 1" "s + x"]
  have "measure_loop b pin k (c + 1, Fin (s + x)) ?st
     = ((c + 1 + int k, Fin (s + x + real k * x)), ?st\<lparr>tick := tick ?st + 5 * k\<rparr>)"
    by (simp add: x_def)
  moreover have "s + x + real k * x = s + real (Suc k) * x" by (simp add: algebra_simps)
  ultimately have "measure_loop b pin (Suc k) (c, Fin s) st
     = ((c + int (Suc k), Fin (s + real (Suc k) * x)), st\<lparr>tick := tick st + 5 * Suc k\<rparr>)"
    by (simp add: r rs)
  then show ?case by (simp only: x_def)
qed

lemma parse_ppm_two:
  "parse_ppm b 2 [t1, t2] =
     (if fle (atof b t1) (Fin 0) then Inl ''Invalid ppm value''
      else if fle (atof b t2) (Fin 0) then Inl ''Invalid ppm value''
      else Inr [atof b t1, atof b t2])"
  by (simp add: eval_nat_numeral Let_def)

lemma bench_parsers [simp]:
  "atoi (bench adc) s = (if s = ''2'' then 2 else 0)"
  "atof (bench adc) s = (if s = ''10'' then Fin 10 else if s = ''100'' then Fin 100 else Fin 0)"
  by (simp_all add: bench_def)

lemma first_exposure:
  "tick st = 0 \<Longrightarrow>
     measureRsOverRo (bench two_exposures) pin (Fin 10) 10 st = (Fin 32, st\<lparr>tick := 50\<rparr>)"
  using measure_loop_steady [of st 10 "bench two_exposures" pin 31 0 0]
  by (simp add: measureRsOverRo_def bench_def two_exposures_def float_of_int_def)

lemma second_exposure:
  "tick st = 50 \<Longrightarrow>
     measureRsOverRo (bench two_exposures) pin (Fin 10) 10 st = (Fin 2, st\<lparr>tick := 100\<rparr>)"
  using measure_loop_steady [of st 10 "bench two_exposures" pin 341 0 0]
  by (simp add: measureRsOverRo_def bench_def two_exposures_def float_of_int_def)

lemma session_collect:
  "collect_points (bench two_exposures) MQ2_PIN (Fin 10) [Fin 10, Fin 100] session_parsed
     = Some (Inr ([Fin 32, Fin 2], session_measured))"
  by (simp add: session_parsed_def session_measured_def Serial_readStringUntil_def Let_def
      Serial_println_def first_exposure second_exposure power_on_def)

lemma session_example:
  "handleSerialCalibration (bench two_exposures) session_start
     = Some (print_curve fitted_curve session_measured)"
  by (simp add: handleSerialCalibration_def session_start_def operator_input_def
      calibration_banner_def Serial_readStringUntil_def trim_def isspace_def
      parse_command_def Let_def Serial_println_def parse_ppm_two calibrate_sensor_def
      sensor_pin_def first_exposure second_exposure fit_example print_curve_def power_on_def
      fitted_curve_def session_measured_def)

lemma late_read:
  "50 \<le> tick st \<Longrightarrow>
     readAnalogFilteredRaw (bench two_exposures) pin st = (341, st\<lparr>tick := tick st + 5\<rparr>)"
  using readAnalogFilteredRaw_steady [of st "bench two_exposures" pin 341]
  by (simp add: bench_def two_exposures_def)

lemma LPG_after_session:
  "LPG (fst (measure_cycle (bench two_exposures) (print_curve fitted_curve session_measured)))
     = MQGetGasPercentage (Fin 2) MQ2Curve"
proof -
  let ?s = "print_curve fitted_curve session_measured"
  have t: "50 \<le> tick ?s"
    by (simp add: print_curve_def fitted_curve_def session_measured_def Serial_println_def)
  have "MQRead (bench two_exposures) MQ2_PIN (Ro_MQ2 ?s) ?s
      = (ema_update (SmoothedRS_MQ2 (?s\<lparr>tick := tick ?s + 5\<rparr>))
           (Fin (10 * (1023 - of_int 341) / of_int 341)),
         ?s\<lparr>tick := tick ?s + 5,
            SmoothedRS_MQ2 := ema_update (SmoothedRS_MQ2 (?s\<lparr>tick := tick ?s + 5\<rparr>))
              (Fin (10 * (1023 - of_int 341) / of_int 341))\<rparr>)"
    using MQRead_by_pin(1) [OF _ late_read [OF t], of "Ro_MQ2 ?s"] by simp
  moreover have "SmoothedRS_MQ2 ?s = Fin 0" "Ro_MQ2 ?s = Fin 10"
    by (simp_all add: print_curve_def fitted_curve_def session_measured_def Serial_println_def
        power_on_def)
  ultimately have "fst (MQRead (bench two_exposures) MQ2_PIN (Ro_MQ2 ?s) ?s) = Fin 20"
    by (simp add: ema_update_def)
  then show ?thesis
    using \<open>Ro_MQ2 ?s = Fin 10\<close> by (simp add: measure_cycle_LPG estimate_def split_beta)
qed

lemma fitted_curve_differs:
  "fitted_curve \<noteq> MQ2Curve"
  "MQGetGasPercentage (Fin 2) fitted_curve = Fin 100"
  "MQGetGasPercentage (Fin 2) MQ2Curve \<noteq> Fin 100"
proof -
  show "fitted_curve \<noteq> MQ2Curve" by (simp add: fitted_curve_def MQ2Curve_def)
  have pos: "0 < ln (2::real)" using ln2_bounds(1) by linarith
  have "(ln 2 - 3 * ln 2) / (- (4 * ln 2)) + 3 / 2 = (2::real)"
    using pos by (simp add: field_simps)
  then have "MQGetGasPercentage (Fin 2) fitted_curve = Fin (10 powr 2)"
    using pos by (simp add: fitted_curve_def MQGetGasPercentage_Fin)
  then show "MQGetGasPercentage (Fin 2) fitted_curve = Fin 100" by simp
  have "(ln 2 - 21 / 100) / (- (47 / 100)) + 1291 / 1000 < (2::real)"
    using ln2_bounds(1) by (simp add: field_simps)
  then have "(10::real) powr ((ln 2 - 21 / 100) / (- (47 / 100)) + 1291 / 1000) < 10 powr 2"
    by (simp only: powr_less_cancel_iff)
  then have "(10::real) powr ((ln 2 - 21 / 100) / (- (47 / 100)) + 1291 / 1000) \<noteq> 100"
    by simp
  then show "MQGetGasPercentage (Fin 2) MQ2Curve \<noteq> Fin 100"
    by (simp add: MQ2Curve_def MQGetGasPercentage_Fin)
qed

lemma calibrate_sensor_fitted:
  assumes "sensor_pin sensor st = Some (pin, Ro)"
    and "collect_points b pin Ro ppmList st = Some (Inr (rsroList, st1))"
    and "computeMultiPointCurve ppmList rsroList N = Some newCurve"
  shows "calibrate_sensor b sensor N ppmList st = Some (print_curve newCurve st1)"
  using assms by (simp add: calibrate_sensor_def)

lemma print_curve_prints:
  "print_curve newCurve st1 = st1\<lparr>serial_out := serial_out st1 @
      [Str ''Computed pcurve (p0, p1, p2):'', Num (fst newCurve), Str '', '',
       Num (fst (snd newCurve)), Str '', '', Num (snd (snd newCurve)),
       Str ''You can copy these values into the sketch for this sensor's curve.'']\<rparr>"
  by (simp add: print_curve_def Serial_println_def split_beta)

text \<open>
  C2, as the code has it. The curves are constants of the sketch and no calibration
  session changes them. Whatever the outcome of a session that returns (abort, rejected
  fit or successful fit), the state after it is the state before it but for the clock,
  the serial input consumed and the text printed on Serial; so every estimate of the
  next cycle is what it would have been without the session at the same clock. A
  successful fit is printed, for the operator to copy into the sketch, and nothing else
  is done with it.
\<close>

theorem calibration_never_installs_curve:
  "(handleSerialCalibration b st = Some st' \<longrightarrow>
       st' = st\<lparr>tick := tick st', serial_in := serial_in st', serial_out := serial_out st'\<rparr>
     \<and> fst (measure_cycle b2 st') = fst (measure_cycle b2 (st\<lparr>tick := tick st'\<rparr>)))
   \<and> (sensor_pin sensor st = Some (pin, Ro)
       \<and> collect_points b pin Ro ppmList st = Some (Inr (rsroList, st1))
       \<and> computeMultiPointCurve ppmList rsroList N = Some newCurve \<longrightarrow>
       calibrate_sensor b sensor N ppmList st = Some (print_curve newCurve st1)
     \<and> print_curve newCurve st1 = st1\<lparr>serial_out := serial_out st1 @
          [Str ''Computed pcurve (p0, p1, p2):'', Num (fst newCurve), Str '', '',
           Num (fst (snd newCurve)), Str '', '', Num (snd (snd newCurve)),
           Str ''You can copy these values into the sketch for this sensor's curve.'']\<rparr>)"
proof (intro conjI impI)
  assume h: "handleSerialCalibration b st = Some st'"
  then have k: "sensors_kept st st'" by (rule handleSerialCalibration_kept)
  then show "st' = st\<lparr>tick := tick st', serial_in := serial_in st',
      serial_out := serial_out st'\<rparr>"
    by (simp add: sensors_kept_eq)
  from k have "sensors_kept (st\<lparr>tick := tick st'\<rparr>) st'" by (simp add: sensors_kept_def)
  from measure_cycle_same [OF this, of b2]
  show "fst (measure_cycle b2 st') = fst (measure_cycle b2 (st\<lparr>tick := tick st'\<rparr>))"
    by simp
next
  assume "sensor_pin sensor st = Some (pin, Ro)
       \<and> collect_points b pin Ro ppmList st = Some (Inr (rsroList, st1))
       \<and> computeMultiPointCurve ppmList rsroList N = Some newCurve"
  then show "calibrate_sensor b sensor N ppmList st = Some (print_curve newCurve st1)"
    by (simp add: calibrate_sensor_fitted)
next
  show "print_curve newCurve st1 = st1\<lparr>serial_out := serial_out st1 @
          [Str ''Computed pcurve (p0, p1, p2):'', Num (fst newCurve), Str '', '',
           Num (fst (snd newCurve)), Str '', '', Num (snd (snd newCurve)),
           Str ''You can copy these values into the sketch for this sensor's curve.'']\<rparr>"
    by (rule print_curve_prints)
qed

theorem calibration_never_installs_curve_witness:
  "handleSerialCalibration (bench two_exposures) session_start
     = Some (print_curve fitted_curve session_measured)
   \<and> print_curve fitted_curve session_measured
       = session_start\<lparr>tick := 100, serial_in := [],
           serial_out := serial_out (print_curve fitted_curve session_measured)\<rparr>
   \<and> fst (measure_cycle (bench two_exposures) (print_curve fitted_curve session_measured))
       = fst (measure_cycle (bench two_exposures) (session_start\<lparr>tick := 100\<rparr>))
   \<and> sensor_pin 2 session_parsed = Some (MQ2_PIN, Fin 10)
   \<and> collect_points (bench two_exposures) MQ2_PIN (Fin 10) [Fin 10, Fin 100] session_parsed
       = Some (Inr ([Fin 32, Fin 2], session_measured))
   \<and> computeMultiPointCurve [Fin 10, Fin 100] [Fin 32, Fin 2] 2 = Some fitted_curve
   \<and> calibrate_sensor (bench two_exposures) 2 2 [Fin 10, Fin 100] session_parsed
       = Some (print_curve fitted_curve session_measured)"
proof -
  note t = calibration_never_installs_curve [where b = "bench two_exposures"
      and ?b2.0 = "bench two_exposures" and st = session_start
      and st' = "print_curve fitted_curve session_measured"]
  note u = calibration_never_installs_curve [where b = "bench two_exposures"
      and st = session_parsed and sensor = 2 and pin = MQ2_PIN and Ro = "Fin 10"
      and ppmList = "[Fin 10, Fin 100]" and rsroList = "[Fin 32, Fin 2]"
      and ?st1.0 = session_measured and N = 2 and newCurve = fitted_curve]
  have tk: "tick (print_curve fitted_curve session_measured) = 100"
    "serial_in (print_curve fitted_curve session_measured) = []"
    by (simp_all add: print_curve_prints session_measured_def power_on_def)
  have sp: "sensor_pin 2 session_parsed = Some (MQ2_PIN, Fin 10)"
    by (simp add: sensor_pin_def session_parsed_def power_on_def)
  have fit: "computeMultiPointCurve [Fin 10, Fin 100] [Fin 32, Fin 2] 2 = Some fitted_curve"
    by (simp add: fit_example fitted_curve_def)
  from t session_example tk have
    "print_curve fitted_curve session_measured
       = session_start\<lparr>tick := 100, serial_in := [],
           serial_out := serial_out (print_curve fitted_curve session_measured)\<rparr>"
    "fst (measure_cycle (bench two_exposures) (print_curve fitted_curve session_measured))
       = fst (measure_cycle (bench two_exposures) (session_start\<lparr>tick := 100\<rparr>))"
    by simp_all
  moreover from u sp session_collect fit have
    "calibrate_sensor (bench two_exposures) 2 2 [Fin 10, Fin 100] session_parsed
       = Some (print_curve fitted_curve session_measured)"
    by blast
  ultimately show ?thesis using session_example sp session_collect fit by simp
qed

text \<open>
  The example session completes with a successful fit. The fitted curve is not the
  built-in MQ-2 curve, and the LPG estimate of the next cycle (Rs/Ro = 2) is the one the
  built-in curve gives, not the 100 ppm that the fitted curve gives.
\<close>

theorem calibration_fit_not_used_counterexample:
  "handleSerialCalibration (bench two_exposures) session_start
     = Some (print_curve fitted_curve session_measured)
   \<and> computeMultiPointCurve [Fin 10, Fin 100] [Fin 32, Fin 2] 2 = Some fitted_curve
   \<and> fitted_curve \<noteq> MQ2Curve
   \<and> LPG (fst (measure_cycle (bench two_exposures)
        (print_curve fitted_curve session_measured)))
       = MQGetGasPercentage (Fin 2) MQ2Curve
   \<and> MQGetGasPercentage (Fin 2) fitted_curve = Fin 100
   \<and> MQGetGasPercentage (Fin 2) MQ2Curve \<noteq> Fin 100"
  using session_example fit_example LPG_after_session fitted_curve_differs
  by (simp add: fitted_curve_def)

end
